theory Spec2Isabelle
  imports Main "HOL-Library.AList"
begin

section \<open>Data model of \<open>src/logic/selection.js\<close>\<close>

text \<open>
  A path is a sequence of keys; a key is a string (an object property name) or a
  non-negative integer (an array index). JavaScript compares keys with \<open>===\<close> and
  paths with lodash \<open>isEqual\<close>: both are structural, and the string \<open>"1"\<close> differs
  from the number \<open>1\<close>, as \<open>KStr ''1''\<close> differs from \<open>KNum 1\<close>.
\<close>

datatype key = KStr string | KNum nat

type_synonym path = "key list"

text \<open>
  A JSON document. Numbers are integers here: floating point is not modelled. An
  object is the ordered list of its members. \<open>undefined\<close> is \<open>None\<close> of
  \<open>json option\<close>.
\<close>

datatype json =
    JNull
  | JBool bool
  | JNum int
  | JStr string
  | JArr "json list"
  | JObj "(string \<times> json) list"

text \<open>
  Modelled from the spec: the marker constants \<open>STATE_EXPANDED\<close> and \<open>STATE_KEYS\<close>
  of \<open>src/constants.js\<close> and the code that builds the view-state tree are not among
  the sources. By section 3 of the spec the view-state tree mirrors the document; a
  node stores the ordered sequence of its keys and an expanded flag. Here a node
  carries the two marker properties (either may be missing) and the states of its
  children under the children's keys.
\<close>

datatype vstate =
  VState (STATE_EXPANDED: "bool option") (STATE_KEYS: "key list option")
         (children: "(key \<times> vstate) list")

text \<open>
  What the source throws. \<open>Error\<close> and \<open>TypeError\<close> carry the message.
  \<open>OutsideTypes\<close> marks a call that has left the declared types of the source
  (a string key under an array, an \<open>undefined\<close> path): what JavaScript does there rests
  on coercions that this development does not follow, and no claim below rests on it.
\<close>

datatype error = Error string | TypeError string | OutsideTypes

datatype selection_type = AFTER | INSIDE | KEY | VALUE | MULTI

subsection \<open>Library functions the source imports\<close>

text \<open>
  \<open>getIn\<close> of immutable-json-patch walks a path down a document and yields
  \<open>undefined\<close> as soon as a step does not exist. Paths are typed as in section 3 of
  the spec: a string key leads into an object (whose keys are distinct), an integer
  key into an array. A step of the other kind, which JavaScript would coerce, is
  \<open>undefined\<close> here, and so is everything that an object or an array inherits.
\<close>

fun getIn :: "json \<Rightarrow> path \<Rightarrow> json option" where
  "getIn v [] = Some v"
| "getIn (JObj kvs) (KStr k # ks) =
     (case map_of kvs k of None \<Rightarrow> None | Some v \<Rightarrow> getIn v ks)"
| "getIn (JArr xs) (KNum i # ks) =
     (if i < length xs then getIn (xs ! i) ks else None)"
| "getIn _ (_ # _) = None"

text \<open>The same walk on the view-state tree.\<close>

fun getInState :: "vstate \<Rightarrow> path \<Rightarrow> vstate option" where
  "getInState s [] = Some s"
| "getInState s (k # ks) =
     (case map_of (children s) k of None \<Rightarrow> None | Some c \<Rightarrow> getInState c ks)"

text \<open>
  \<open>setIn(state, path.concat(STATE_EXPANDED), value, true)\<close>: the marker is set at the
  node the path leads to; with \<open>createPath = true\<close> every missing node on the way is
  created. A child that exists keeps its place, a new one is appended.
\<close>

fun setInExpanded :: "vstate option \<Rightarrow> path \<Rightarrow> bool \<Rightarrow> vstate" where
  "setInExpanded None [] b = VState (Some b) None []"
| "setInExpanded (Some (VState e ks cs)) [] b = VState (Some b) ks cs"
| "setInExpanded None (k # p) b = VState None None [(k, setInExpanded None p b)]"
| "setInExpanded (Some (VState e ks cs)) (k # p) b =
     VState e ks (AList.update k (setInExpanded (map_of cs k) p b) cs)"

text \<open>
  Modelled from the spec: \<open>isObject\<close> and \<open>isObjectOrArray\<close> of
  \<open>src/utils/typeUtils.js\<close> are not among the sources. Section 4.2 of the spec
  tells a value that is an object from one that is an array and from one that is
  neither; \<open>undefined\<close> is neither. \<open>isArray\<close> is \<open>Array.isArray\<close>.
\<close>

definition isObject :: "json option \<Rightarrow> bool" where
  "isObject v = (case v of Some (JObj _) \<Rightarrow> True | _ \<Rightarrow> False)"

definition isArray :: "json option \<Rightarrow> bool" where
  "isArray v = (case v of Some (JArr _) \<Rightarrow> True | _ \<Rightarrow> False)"

definition isObjectOrArray :: "json option \<Rightarrow> bool" where
  "isObjectOrArray v = (isObject v \<or> isArray v)"

text \<open>lodash \<open>initial\<close>: all but the last element, \<open>[]\<close> for the empty list.\<close>

definition initial :: "'a list \<Rightarrow> 'a list" where
  "initial xs = butlast xs"

text \<open>\<open>Array.prototype.indexOf\<close>: the first position of the element, or \<open>-1\<close>.\<close>

fun indexOf :: "'a list \<Rightarrow> 'a \<Rightarrow> int" where
  "indexOf [] x = -1"
| "indexOf (y # ys) x =
     (if y = x then 0 else (let i = indexOf ys x in if i = -1 then -1 else i + 1))"

section \<open>Range expansion\<close>

text \<open>
  \<open>findSharedPath\<close>: the loop advances while both paths have the same key at
  position \<open>i\<close> (a position beyond the end of \<open>path2\<close> reads \<open>undefined\<close>, which
  equals no key) and returns \<open>path1.slice(0, i)\<close>.
\<close>

fun findSharedPath :: "path \<Rightarrow> path \<Rightarrow> path" where
  "findSharedPath (x # xs) (y # ys) = (if x = y then x # findSharedPath xs ys else [])"
| "findSharedPath _ _ = []"

text \<open>
  \<open>expandSelection\<close>. The object branch reads the stored key order with
  \<open>getIn(state, sharedPath.concat(STATE_KEYS))\<close>; when there is none, \<open>keys.indexOf\<close>
  is a \<open>TypeError\<close>. When a key is not found the code falls through to the array test
  and then to the final \<open>throw\<close>. In the array branch \<open>Math.min\<close> and \<open>Math.max\<close> are
  taken of the two keys, which are integers for an array.
\<close>

definition expandSelection :: "json \<Rightarrow> vstate \<Rightarrow> path \<Rightarrow> path \<Rightarrow> error + path list" where
  "expandSelection json state anchorPath focusPath =
    (if anchorPath = focusPath then Inr [anchorPath]
     else
       let sharedPath = findSharedPath anchorPath focusPath in
       if length anchorPath = length sharedPath \<or> length focusPath = length sharedPath
       then Inr [sharedPath]
       else
         let anchorKey = anchorPath ! length sharedPath;
             focusKey = focusPath ! length sharedPath;
             value = getIn json sharedPath;
             arrayOrThrow =
               (if isArray value then
                  (case (anchorKey, focusKey) of
                     (KNum a, KNum f) \<Rightarrow>
                       Inr (map (\<lambda>i. sharedPath @ [KNum i]) [min a f ..< Suc (max a f)])
                   | _ \<Rightarrow> Inl OutsideTypes)
                else Inl (Error ''Failed to create selection''))
         in
         if isObject value then
           (case Option.bind (getInState state sharedPath) STATE_KEYS of
              None \<Rightarrow> Inl (TypeError ''Cannot read properties of undefined'')
            | Some keys \<Rightarrow>
                let anchorIndex = indexOf keys anchorKey;
                    focusIndex = indexOf keys focusKey
                in
                if anchorIndex \<noteq> -1 \<and> focusIndex \<noteq> -1 then
                  Inr (map (\<lambda>i. sharedPath @ [keys ! nat i])
                         [min anchorIndex focusIndex .. max anchorIndex focusIndex])
                else arrayOrThrow)
         else arrayOrThrow)"

section \<open>Selections\<close>

text \<open>
  A selection is the object \<open>{type, anchorPath, focusPath, edit, paths, pathsMap}\<close>.
  The last three properties are optional: \<open>None\<close> is a property that the object does
  not have. \<open>pathsMap\<close> is the object that \<open>createPathsMap\<close> fills, its
  properties in the order in which they were set.
\<close>

record selection =
  type :: selection_type
  anchorPath :: path
  focusPath :: path
  edit :: "bool option"
  paths :: "path list option"
  pathsMap :: "(string \<times> bool) list option"

text \<open>
  The argument of \<open>createSelection\<close>, destructured as
  \<open>{type, anchorPath, focusPath, path, edit = false, next = false, nextInside = false}\<close>.
\<close>

record selectionSchema =
  schemaType :: "selection_type option"
  schemaAnchorPath :: "path option"
  schemaFocusPath :: "path option"
  schemaPath :: "path option"
  schemaEdit :: bool
  schemaNext :: bool
  schemaNextInside :: bool

text \<open>A caret stop \<open>{path, type}\<close> as \<open>getVisibleCaretPositions\<close> lists them.\<close>

record caretPosition =
  caretPath :: path
  caretType :: selection_type

text \<open>
  The functions that the source imports from \<open>documentState.js\<close>, which is not
  among the sources, are parameters of everything below: a record holds them, and the
  theorems hold for every such record.
\<close>

record documentState =
  getNextVisiblePath :: "json \<Rightarrow> vstate \<Rightarrow> path \<Rightarrow> path option"
  getPreviousVisiblePath :: "json \<Rightarrow> vstate \<Rightarrow> path \<Rightarrow> path option"
  getVisibleCaretPositions :: "json \<Rightarrow> vstate \<Rightarrow> caretPosition list"

text \<open>
  The two shapes of object literal that the navigation functions pass to
  \<open>createSelection\<close>: \<open>{type: MULTI, anchorPath, focusPath}\<close> and \<open>{type, path}\<close>.
\<close>

definition multiSchema :: "path \<Rightarrow> path \<Rightarrow> selectionSchema" where
  "multiSchema a f =
     \<lparr>schemaType = Some MULTI, schemaAnchorPath = Some a, schemaFocusPath = Some f,
      schemaPath = None, schemaEdit = False, schemaNext = False, schemaNextInside = False\<rparr>"

definition pathSchema :: "selection_type \<Rightarrow> path \<Rightarrow> selectionSchema" where
  "pathSchema t p =
     \<lparr>schemaType = Some t, schemaAnchorPath = None, schemaFocusPath = None,
      schemaPath = Some p, schemaEdit = False, schemaNext = False, schemaNextInside = False\<rparr>"

text \<open>
  \<open>compileJSONPointer\<close> of immutable-json-patch: every key as \<open>String(key)\<close> with
  \<open>~\<close> and \<open>/\<close> escaped, behind a \<open>/\<close>. \<open>showNat\<close> writes a number in decimal
  digits.
\<close>

function showNat :: "nat \<Rightarrow> string" where
  "showNat n =
     (if n < 10 then [char_of (48 + n)]
      else showNat (n div 10) @ [char_of (48 + n mod 10)])"
  by pat_completeness auto
termination
  by (relation "measure id") auto

definition keyToString :: "key \<Rightarrow> string" where
  "keyToString k = (case k of KStr s \<Rightarrow> s | KNum n \<Rightarrow> showNat n)"

definition escapeProp :: "string \<Rightarrow> string" where
  "escapeProp s =
     concat (map (\<lambda>c. if c = CHR ''~'' then ''~0'' else if c = CHR ''/'' then ''~1'' else [c]) s)"

definition compileJSONPointer :: "path \<Rightarrow> string" where
  "compileJSONPointer p = concat (map (\<lambda>k. ''/'' @ escapeProp (keyToString k)) p)"

text \<open>\<open>createPathsMap\<close>: \<open>pathsMap[compileJSONPointer(path)] = true\<close> for each path.\<close>

definition createPathsMap :: "path list \<Rightarrow> (string \<times> bool) list" where
  "createPathsMap ps = fold (\<lambda>p m. AList.update (compileJSONPointer p) True m) ps []"

definition getParentPath :: "selection \<Rightarrow> path" where
  "getParentPath sel = (if type sel = INSIDE then focusPath sel else initial (focusPath sel))"

text \<open>
  \<open>createSelection\<close> calls \<open>getSelectionDown\<close> and \<open>getSelectionNextInside\<close> when
  the flags \<open>next\<close> and \<open>nextInside\<close> ask for it, and these two call
  \<open>createSelection\<close> back, with requests that carry neither flag: the three are
  defined together. A function returns \<open>Inl\<close> of what it throws; of the others,
  \<open>Inr None\<close> is \<open>null\<close>. \<open>x || selection\<close> keeps \<open>selection\<close> when \<open>x\<close> is \<open>null\<close>.

  Outside the declared types: a request for \<open>KEY\<close>, \<open>VALUE\<close>, \<open>AFTER\<close> or
  \<open>INSIDE\<close> without \<open>path\<close> would give a selection with \<open>undefined\<close> paths, an
  empty range has \<open>undefined\<close> ends, and \<open>getSelectionNextInside\<close> on the root or on
  a path that leads nowhere would hand \<open>undefined\<close> to the visibility provider.
  The \<open>TypeError\<close> of \<open>createSelection\<close> carries the request in its message, which
  is left out here.
\<close>

function createSelection ::
    "documentState \<Rightarrow> json \<Rightarrow> vstate \<Rightarrow> selectionSchema \<Rightarrow> error + selection"
  and getSelectionDown ::
    "documentState \<Rightarrow> json \<Rightarrow> vstate \<Rightarrow> selection \<Rightarrow> bool \<Rightarrow> error + selection option"
  and getSelectionNextInside ::
    "documentState \<Rightarrow> json \<Rightarrow> vstate \<Rightarrow> selection \<Rightarrow> error + selection option"
where
  "createSelection D json state schema =
    (if schemaType schema = Some KEY then
       (case schemaPath schema of
          None \<Rightarrow> Inl OutsideTypes
        | Some p \<Rightarrow>
            Inr \<lparr>type = (if schemaNext schema then VALUE else KEY),
                 anchorPath = p, focusPath = p, edit = Some (schemaEdit schema),
                 paths = None, pathsMap = None\<rparr>)
     else if schemaType schema = Some VALUE then
       (case schemaPath schema of
          None \<Rightarrow> Inl OutsideTypes
        | Some p \<Rightarrow>
            let selection0 = \<lparr>type = VALUE, anchorPath = p, focusPath = p,
                               edit = Some (schemaEdit schema), paths = None, pathsMap = None\<rparr>;
                step1 =
                  (if schemaNext schema then
                     (case getSelectionDown D json state selection0 False of
                        Inl e \<Rightarrow> Inl e
                      | Inr None \<Rightarrow> Inr selection0
                      | Inr (Some s) \<Rightarrow> Inr s)
                   else Inr selection0)
            in
            (case step1 of
               Inl e \<Rightarrow> Inl e
             | Inr selection1 \<Rightarrow>
                 if schemaNextInside schema then
                   (case getSelectionNextInside D json state selection1 of
                      Inl e \<Rightarrow> Inl e
                    | Inr None \<Rightarrow> Inr selection1
                    | Inr (Some s) \<Rightarrow> Inr s)
                 else Inr selection1))
     else if schemaType schema = Some AFTER then
       (case schemaPath schema of
          None \<Rightarrow> Inl OutsideTypes
        | Some p \<Rightarrow>
            Inr \<lparr>type = AFTER, anchorPath = p, focusPath = p,
                 edit = None, paths = None, pathsMap = None\<rparr>)
     else if schemaType schema = Some INSIDE then
       (case schemaPath schema of
          None \<Rightarrow> Inl OutsideTypes
        | Some p \<Rightarrow>
            Inr \<lparr>type = INSIDE, anchorPath = p, focusPath = p,
                 edit = None, paths = None, pathsMap = None\<rparr>)
     else
       (case (schemaAnchorPath schema, schemaFocusPath schema) of
          (Some a, Some f) \<Rightarrow>
            (case expandSelection json state a f of
               Inl e \<Rightarrow> Inl e
             | Inr [] \<Rightarrow> Inl OutsideTypes
             | Inr (q # qs) \<Rightarrow>
                 let ps = q # qs;
                     focusPathLast = (f = last ps \<or> a = hd ps)
                 in Inr \<lparr>type = MULTI,
                         anchorPath = (if focusPathLast then hd ps else last ps),
                         focusPath = (if focusPathLast then last ps else hd ps),
                         edit = None, paths = Some ps, pathsMap = Some (createPathsMap ps)\<rparr>)
        | _ \<Rightarrow> Inl (TypeError ''Unknown type of selection'')))"
| "getSelectionDown D json state selection keepAnchorPath =
    (case getNextVisiblePath D json state (focusPath selection) of
       None \<Rightarrow> Inr None
     | Some nextPath \<Rightarrow>
         if keepAnchorPath then
           (let collapsedState =
                  (if isObjectOrArray (getIn json (focusPath selection))
                   then setInExpanded (Some state) (focusPath selection) False
                   else state)
            in
            case getNextVisiblePath D json collapsedState (focusPath selection) of
              None \<Rightarrow> Inr None
            | Some nextPathAfter \<Rightarrow>
                if type selection = AFTER then
                  map_sum id Some
                    (createSelection D json state (multiSchema nextPathAfter nextPathAfter))
                else if type selection = INSIDE then
                  map_sum id Some (createSelection D json state (multiSchema nextPath nextPath))
                else
                  map_sum id Some
                    (createSelection D json state
                       (multiSchema (anchorPath selection) nextPathAfter)))
         else if type selection = KEY then
           (if isArray (getIn json (initial nextPath)) then
              Inr (Some \<lparr>type = VALUE, anchorPath = nextPath, focusPath = nextPath,
                         edit = None, paths = None, pathsMap = None\<rparr>)
            else
              Inr (Some \<lparr>type = KEY, anchorPath = nextPath, focusPath = nextPath,
                         edit = None, paths = None, pathsMap = None\<rparr>))
         else if type selection = VALUE then
           Inr (Some \<lparr>type = VALUE, anchorPath = nextPath, focusPath = nextPath,
                      edit = None, paths = None, pathsMap = None\<rparr>)
         else if type selection = INSIDE then
           map_sum id Some (createSelection D json state (multiSchema nextPath nextPath))
         else
           map_sum id Some (createSelection D json state (multiSchema nextPath nextPath)))"
| "getSelectionNextInside D json state selection =
    (case focusPath selection of
       [] \<Rightarrow> Inl OutsideTypes
     | _ # _ \<Rightarrow>
        (let path = focusPath selection;
             parentPath = initial path;
             childPath = [last path]
         in
         case (getIn json parentPath, getInState state parentPath) of
           (Some pjson, Some pstate) \<Rightarrow>
             (case getNextVisiblePath D pjson pstate childPath of
                Some nextPathInside \<Rightarrow>
                  map_sum id Some
                    (createSelection D json state (pathSchema VALUE (parentPath @ nextPathInside)))
              | None \<Rightarrow>
                  map_sum id Some (createSelection D json state (pathSchema AFTER path)))
         | _ \<Rightarrow> Inl OutsideTypes))"
  by pat_completeness auto
termination
  apply (relation "measure (\<lambda>x. case x of
            Inl (D, json, state, schema) \<Rightarrow>
              (if schemaNext schema \<or> schemaNextInside schema then 2 else 0)
          | Inr _ \<Rightarrow> (1::nat))")
  apply (auto simp: multiSchema_def pathSchema_def)
  done

declare createSelection.simps [simp del]
declare getSelectionDown.simps [simp del]
declare getSelectionNextInside.simps [simp del]
declare showNat.simps [simp del]

text \<open>\<open>getSelectionUp\<close>, branch by branch as in the source.\<close>

definition getSelectionUp ::
    "documentState \<Rightarrow> json \<Rightarrow> vstate \<Rightarrow> selection \<Rightarrow> bool \<Rightarrow> error + selection option" where
  "getSelectionUp D json state selection keepAnchorPath =
    (case getPreviousVisiblePath D json state (focusPath selection) of
       None \<Rightarrow> Inr None
     | Some previousPath \<Rightarrow>
         if keepAnchorPath then
           (if type selection = AFTER \<or> type selection = INSIDE then
              map_sum id Some
                (createSelection D json state
                   (multiSchema (anchorPath selection) (anchorPath selection)))
            else
              map_sum id Some
                (createSelection D json state
                   (multiSchema (anchorPath selection) previousPath)))
         else if type selection = KEY then
           (if isArray (getIn json (initial previousPath)) \<or> previousPath = [] then
              Inr (Some \<lparr>type = VALUE, anchorPath = previousPath, focusPath = previousPath,
                         edit = None, paths = None, pathsMap = None\<rparr>)
            else
              Inr (Some \<lparr>type = KEY, anchorPath = previousPath, focusPath = previousPath,
                         edit = None, paths = None, pathsMap = None\<rparr>))
         else if type selection = VALUE then
           Inr (Some \<lparr>type = VALUE, anchorPath = previousPath, focusPath = previousPath,
                      edit = None, paths = None, pathsMap = None\<rparr>)
         else if type selection = AFTER then
           map_sum id Some
             (createSelection D json state
                (multiSchema (focusPath selection) (focusPath selection)))
         else if type selection = INSIDE then
           map_sum id Some
             (createSelection D json state
                (multiSchema (focusPath selection) (focusPath selection)))
         else
           map_sum id Some
             (createSelection D json state (multiSchema previousPath previousPath)))"

text \<open>\<open>Array.prototype.findIndex\<close>: the first position whose element passes, or \<open>-1\<close>.\<close>

fun findIndex :: "('a \<Rightarrow> bool) \<Rightarrow> 'a list \<Rightarrow> int" where
  "findIndex P [] = -1"
| "findIndex P (y # ys) =
     (if P y then 0 else (let i = findIndex P ys in if i = -1 then -1 else i + 1))"

text \<open>
  \<open>findCaretAndSiblings\<close>: the caret stop with the focus path and the type of the
  selection, and its neighbours in the list.
\<close>

record caretAndSiblings =
  caret :: "caretPosition option"
  previous :: "caretPosition option"
  "next" :: "caretPosition option"

definition findCaretAndSiblings ::
    "documentState \<Rightarrow> json \<Rightarrow> vstate \<Rightarrow> selection \<Rightarrow> caretAndSiblings" where
  "findCaretAndSiblings D json state selection =
    (let visibleCaretPositions = getVisibleCaretPositions D json state;
         index = findIndex (\<lambda>c. caretPath c = focusPath selection \<and> caretType c = type selection)
                   visibleCaretPositions
     in \<lparr>caret = (if index \<noteq> -1 then Some (visibleCaretPositions ! nat index) else None),
         previous = (if index \<noteq> -1 \<and> index > 0
                     then Some (visibleCaretPositions ! nat (index - 1)) else None),
         next = (if index \<noteq> -1 \<and> index < int (length visibleCaretPositions) - 1
                 then Some (visibleCaretPositions ! nat (index + 1)) else None)\<rparr>)"

text \<open>
  \<open>getSelectionLeft\<close> and \<open>getSelectionRight\<close>. \<open>caret && previous\<close> holds when
  both are caret stops. The parent path is \<open>initial(selection.focusPath)\<close>, also for
  the empty focus path.
\<close>

definition getSelectionLeft ::
    "documentState \<Rightarrow> json \<Rightarrow> vstate \<Rightarrow> selection \<Rightarrow> bool \<Rightarrow> error + selection option" where
  "getSelectionLeft D json state selection keepAnchorPath =
    (let found = findCaretAndSiblings D json state selection in
     if keepAnchorPath then
       (if type selection \<noteq> MULTI then
          map_sum id Some
            (createSelection D json state
               (multiSchema (anchorPath selection) (focusPath selection)))
        else Inr None)
     else
       (case (caret found, previous found) of
          (Some c, Some p) \<Rightarrow>
            map_sum id Some (createSelection D json state (pathSchema (caretType p) (caretPath p)))
        | _ \<Rightarrow>
            let parentPath = initial (focusPath selection);
                parent = getIn json parentPath
            in
            if type selection = VALUE \<and> isArray parent then
              map_sum id Some
                (createSelection D json state
                   (multiSchema (focusPath selection) (focusPath selection)))
            else if type selection = MULTI \<and> \<not> isArray parent then
              map_sum id Some (createSelection D json state (pathSchema KEY (focusPath selection)))
            else Inr None))"

definition getSelectionRight ::
    "documentState \<Rightarrow> json \<Rightarrow> vstate \<Rightarrow> selection \<Rightarrow> bool \<Rightarrow> error + selection option" where
  "getSelectionRight D json state selection keepAnchorPath =
    (let found = findCaretAndSiblings D json state selection in
     if keepAnchorPath then
       (if type selection \<noteq> MULTI then
          map_sum id Some
            (createSelection D json state
               (multiSchema (anchorPath selection) (focusPath selection)))
        else Inr None)
     else
       (case (caret found, next found) of
          (Some c, Some n) \<Rightarrow>
            map_sum id Some (createSelection D json state (pathSchema (caretType n) (caretPath n)))
        | _ \<Rightarrow>
            if type selection = MULTI then
              map_sum id Some (createSelection D json state (pathSchema VALUE (focusPath selection)))
            else Inr None))"

text \<open>
  A JSON-Patch operation, as far as the source reads it. \<open>path = None\<close> is a
  \<open>path\<close> that is not a string (the source tests \<open>typeof operation.path\<close>),
  \<open>from = None\<close> an operation without \<open>from\<close>.
\<close>

record operation =
  op :: string
  path :: "string option"
  "from" :: "string option"

text \<open>
  \<open>createSelectionFromOperations\<close>. The pointer parser is the first argument (see
  the section on JSON pointers). \<open>collected\<close> is the end of the function, reached
  when neither of the two early returns is taken; \<open>the\<close> is applied only to a
  \<open>path\<close> that the filter has found to be a string. A \<open>path\<close> that is not a string
  would reach the parser in the two early returns: outside the declared types.
\<close>

definition createSelectionFromOperations ::
    "(json \<Rightarrow> string \<Rightarrow> path) \<Rightarrow> json \<Rightarrow> operation list \<Rightarrow> error + selection option" where
  "createSelectionFromOperations parseJSONPointerWithArrayIndices json operations =
    (let collected =
           (let paths =
                  map (\<lambda>operation. parseJSONPointerWithArrayIndices json (the (path operation)))
                    (filter (\<lambda>operation.
                        op operation \<noteq> ''test'' \<and>
                        op operation \<noteq> ''remove'' \<and>
                        (op operation \<noteq> ''move'' \<or> from operation \<noteq> path operation) \<and>
                        path operation \<noteq> None)
                      operations)
            in
            if paths = [] then Inr None
            else Inr (Some \<lparr>type = MULTI, anchorPath = hd paths, focusPath = last paths,
                             edit = None, paths = Some paths,
                             pathsMap = Some (createPathsMap paths)\<rparr>));
         renamedOrCollected =
           (if operations \<noteq> [] \<and> list_all (\<lambda>operation. op operation = ''move'') operations then
              (let firstOp = hd operations;
                   otherOps = tl operations
               in
               if from firstOp \<noteq> path firstOp \<and>
                  list_all (\<lambda>operation. from operation = path operation) otherOps
               then
                 (case path firstOp of
                    None \<Rightarrow> Inl OutsideTypes
                  | Some pointer \<Rightarrow>
                      let p = parseJSONPointerWithArrayIndices json pointer in
                      Inr (Some \<lparr>type = KEY, anchorPath = p, focusPath = p,
                                 edit = Some False, paths = None, pathsMap = None\<rparr>))
               else collected)
            else collected)
     in
     if length operations = 1 then
       (let operation = hd operations in
        if op operation = ''replace'' \<or> op operation = ''move'' then
          (case path operation of
             None \<Rightarrow> Inl OutsideTypes
           | Some pointer \<Rightarrow>
               let p = parseJSONPointerWithArrayIndices json pointer in
               Inr (Some \<lparr>type = VALUE, anchorPath = p, focusPath = p,
                          edit = Some False, paths = None, pathsMap = None\<rparr>))
        else renamedOrCollected)
     else renamedOrCollected)"

definition selectAll :: selection where
  "selectAll = \<lparr>type = VALUE, anchorPath = [], focusPath = [],
                 edit = None, paths = None, pathsMap = None\<rparr>"

subsection \<open>\<open>JSON.stringify\<close>\<close>

text \<open>
  \<open>JSON.stringify(value, null, indentation)\<close> of the language: the gap is
  \<open>indentation\<close> spaces, ten at most; without a gap the text has no white space.
  Strings are quoted with the escapes of the standard for \<open>"\<close>, the backslash and
  the control characters. \<open>undefined\<close> gives \<open>undefined\<close>, not a string.
\<close>

definition showInt :: "int \<Rightarrow> string" where
  "showInt i = (if i < 0 then ''-'' @ showNat (nat (- i)) else showNat (nat i))"

definition hexDigit :: "nat \<Rightarrow> char" where
  "hexDigit n = (if n < 10 then char_of (48 + n) else char_of (87 + n))"

definition quoteChar :: "char \<Rightarrow> string" where
  "quoteChar c =
     (if c = CHR ''\"'' then [CHR 0x5C, CHR ''\"'']
      else if c = CHR 0x5C then [CHR 0x5C, CHR 0x5C]
      else if c = CHR 0x08 then [CHR 0x5C, CHR ''b'']
      else if c = CHR 0x0C then [CHR 0x5C, CHR ''f'']
      else if c = CHR 0x0A then [CHR 0x5C, CHR ''n'']
      else if c = CHR 0x0D then [CHR 0x5C, CHR ''r'']
      else if c = CHR 0x09 then [CHR 0x5C, CHR ''t'']
      else if of_char c < (32::nat) then
        [CHR 0x5C, CHR ''u'', CHR ''0'', CHR ''0'',
         hexDigit (of_char c div 16), hexDigit (of_char c mod 16)]
      else [c])"

definition quoteJSONString :: "string \<Rightarrow> string" where
  "quoteJSONString s = ''\"'' @ concat (map quoteChar s) @ ''\"''"

fun join :: "string \<Rightarrow> string list \<Rightarrow> string" where
  "join sep [] = []"
| "join sep [x] = x"
| "join sep (x # y # ys) = x @ sep @ join sep (y # ys)"

fun serializeJSON :: "string \<Rightarrow> string \<Rightarrow> json \<Rightarrow> string" where
  "serializeJSON gap indent JNull = ''null''"
| "serializeJSON gap indent (JBool b) = (if b then ''true'' else ''false'')"
| "serializeJSON gap indent (JNum i) = showInt i"
| "serializeJSON gap indent (JStr s) = quoteJSONString s"
| "serializeJSON gap indent (JArr xs) =
     (if xs = [] then ''[]''
      else if gap = [] then
        ''['' @ join '','' (map (serializeJSON gap indent) xs) @ '']''
      else
        ''['' @ [CHR 0x0A] @ indent @ gap @
        join ('','' @ [CHR 0x0A] @ indent @ gap) (map (serializeJSON gap (indent @ gap)) xs) @
        [CHR 0x0A] @ indent @ '']'')"
| "serializeJSON gap indent (JObj kvs) =
     (if kvs = [] then ''{}''
      else if gap = [] then
        ''{'' @ join '',''
           (map (\<lambda>kv. quoteJSONString (fst kv) @ '':'' @ serializeJSON gap indent (snd kv)) kvs) @
        ''}''
      else
        ''{'' @ [CHR 0x0A] @ indent @ gap @
        join ('','' @ [CHR 0x0A] @ indent @ gap)
          (map (\<lambda>kv. quoteJSONString (fst kv) @ '': '' @ serializeJSON gap (indent @ gap) (snd kv))
             kvs) @
        [CHR 0x0A] @ indent @ ''}'')"

definition stringify :: "json option \<Rightarrow> nat \<Rightarrow> string option" where
  "stringify value indentation =
     (case value of
        None \<Rightarrow> None
      | Some v \<Rightarrow> Some (serializeJSON (replicate (min indentation 10) CHR '' '') [] v))"

text \<open>
  \<open>JSON.stringify(last(path))\<close>: a key is a string or a number; \<open>last([])\<close> is
  \<open>undefined\<close>.
\<close>

definition stringifyKey :: "path \<Rightarrow> string option" where
  "stringifyKey p =
     (if p = [] then None
      else Some (case last p of KStr s \<Rightarrow> quoteJSONString s | KNum n \<Rightarrow> showNat n))"

text \<open>An expression \<open>${...}\<close> in a template literal: \<open>undefined\<close> is written out.\<close>

definition template :: "string option \<Rightarrow> string" where
  "template s = (case s of None \<Rightarrow> ''undefined'' | Some t \<Rightarrow> t)"

text \<open>
  What \<open>selectionToPartialJson\<close> returns: a string, \<open>null\<close>, or the \<open>undefined\<close>
  that \<open>JSON.stringify\<close> hands through. Reading \<open>selection.paths.length\<close> of a
  \<open>MULTI\<close> selection without \<open>paths\<close> is a \<open>TypeError\<close>.
\<close>

datatype partialJson = Text string | Null | Undefined

definition returned :: "string option \<Rightarrow> partialJson" where
  "returned s = (case s of None \<Rightarrow> Undefined | Some t \<Rightarrow> Text t)"

definition selectionToPartialJson :: "json \<Rightarrow> selection \<Rightarrow> nat \<Rightarrow> error + partialJson" where
  "selectionToPartialJson json selection indentation =
    (if type selection = KEY then Inr (returned (stringifyKey (focusPath selection)))
     else if type selection = VALUE then
       Inr (returned (stringify (getIn json (focusPath selection)) indentation))
     else if type selection = MULTI then
       (if focusPath selection = [] then Inr (returned (stringify (Some json) indentation))
        else
          let parentPath = getParentPath selection;
              parent = getIn json parentPath
          in
          case paths selection of
            None \<Rightarrow> Inl (TypeError ''Cannot read properties of undefined'')
          | Some ps \<Rightarrow>
              if isArray parent then
                (if length ps = 1 then
                   Inr (returned (stringify (getIn json (hd ps)) indentation))
                 else
                   Inr (Text (join [CHR 0x0A]
                     (map (\<lambda>path. template (stringify (getIn json path) indentation) @ '','') ps))))
              else
                Inr (Text (join [CHR 0x0A]
                  (map (\<lambda>path. template (stringifyKey path) @ '': '' @
                                template (stringify (getIn json path) indentation) @ '','')
                     ps))))
     else Inr Null)"


section \<open>JSON pointers\<close>

text \<open>\<open>String.prototype.split\<close> at a one-character separator.\<close>

fun splitOn :: "char \<Rightarrow> string \<Rightarrow> string list" where
  "splitOn c [] = [[]]"
| "splitOn c (x # xs) =
     (if x = c then [] # splitOn c xs
      else (case splitOn c xs of [] \<Rightarrow> [[x]] | w # ws \<Rightarrow> (x # w) # ws))"

fun unescapeProp :: "string \<Rightarrow> string" where
  "unescapeProp (a # b # r) =
     (if a = CHR ''~'' \<and> b = CHR ''1'' then CHR ''/'' # unescapeProp r
      else if a = CHR ''~'' \<and> b = CHR ''0'' then CHR ''~'' # unescapeProp r
      else a # unescapeProp (b # r))"
| "unescapeProp r = r"

text \<open>
  \<open>parseJSONPointer\<close> of immutable-json-patch: split at \<open>/\<close>, drop the empty first
  entry, undo the escapes \<open>~1\<close> and \<open>~0\<close>.
\<close>

definition parseJSONPointer :: "string \<Rightarrow> string list" where
  "parseJSONPointer pointer = map unescapeProp (tl (splitOn CHR ''/'' pointer))"

definition isDigit :: "char \<Rightarrow> bool" where
  "isDigit c = (48 \<le> (of_char c :: nat) \<and> (of_char c :: nat) \<le> 57)"

definition readNat :: "string \<Rightarrow> nat" where
  "readNat s = foldl (\<lambda>n c. 10 * n + (of_char c - 48)) 0 s"

text \<open>
  Modelled from the spec: \<open>parseJSONPointerWithArrayIndices\<close> of
  \<open>src/utils/jsonPointer.js\<close> is not among the sources. The spec (section 6) has it
  parse a pointer string back into a path with correct array-index typing: a section
  becomes an integer key when it is written in decimal digits and the value that the
  path so far leads to is an array, and stays a string key otherwise.
\<close>

definition parseJSONPointerWithArrayIndices :: "json \<Rightarrow> string \<Rightarrow> path" where
  "parseJSONPointerWithArrayIndices json pointer =
     foldl (\<lambda>p section.
              p @ [if section \<noteq> [] \<and> list_all isDigit section \<and> isArray (getIn json p)
                   then KNum (readNat section) else KStr section])
       [] (parseJSONPointer pointer)"

section \<open>The visibility provider\<close>

text \<open>
  Modelled from the spec: \<open>getVisiblePaths\<close>, \<open>getNextVisiblePath\<close>,
  \<open>getPreviousVisiblePath\<close> and \<open>getVisibleCaretPositions\<close> of \<open>documentState.js\<close>
  are not among the sources. By sections 3, 4.3 and 6 of the spec the visible paths are
  the paths in document order that no collapsed container hides; the children of an
  object come in the key order that the view state stores for it, those of an array
  by index; the next and the previous visible path are the neighbours of a path in
  that sequence, and there is none at either end. The caret stops of a visible node
  are its key caret (for a property of an object), its value caret, for an expanded
  container the inside caret before its first child, and for a child the after caret
  behind all that lies under it.

  The theorems take the provider as a parameter and do not depend on this model; the
  examples are evaluated with it.
\<close>

definition childrenOf :: "json \<Rightarrow> vstate option \<Rightarrow> (key \<times> json) list" where
  "childrenOf json state =
     (case json of
        JArr xs \<Rightarrow> map (\<lambda>i. (KNum i, xs ! i)) [0 ..< length xs]
      | JObj kvs \<Rightarrow>
          (case Option.bind state STATE_KEYS of
             None \<Rightarrow> []
           | Some keys \<Rightarrow>
               List.map_filter
                 (\<lambda>k. case k of
                        KStr name \<Rightarrow> map_option (\<lambda>v. (k, v)) (map_of kvs name)
                      | KNum i \<Rightarrow> None)
                 keys)
      | _ \<Rightarrow> [])"

definition childState :: "vstate option \<Rightarrow> key \<Rightarrow> vstate option" where
  "childState state k = Option.bind state (\<lambda>s. map_of (children s) k)"

definition isExpanded :: "json \<Rightarrow> vstate option \<Rightarrow> bool" where
  "isExpanded json state =
     (isObjectOrArray (Some json) \<and> Option.bind state STATE_EXPANDED = Some True)"

function visiblePathsFrom :: "json \<Rightarrow> vstate option \<Rightarrow> path \<Rightarrow> path list" where
  "visiblePathsFrom json state p =
     p # (if isExpanded json state
          then concat (map (\<lambda>kv. visiblePathsFrom (snd kv) (childState state (fst kv))
                                    (p @ [fst kv]))
                         (childrenOf json state))
          else [])"
  by pat_completeness auto
termination
proof (relation "measure (\<lambda>(json, state, p). size json)")
  show "wf (measure (\<lambda>(json, state, p). size json))" by simp
next
  fix json :: json and state :: "vstate option" and p :: path and kv :: "key \<times> json"
  assume mem: "kv \<in> set (childrenOf json state)"
  have "size (snd kv) < size json"
  proof (cases json)
    case (JArr xs)
    with mem obtain i where "i < length xs" and "snd kv = xs ! i"
      by (auto simp: childrenOf_def)
    then have "snd kv \<in> set xs" by simp
    then have "size (snd kv) \<le> size_list size xs" by (simp add: size_list_estimation')
    with JArr show ?thesis by simp
  next
    case (JObj kvs)
    with mem have "\<exists>name. map_of kvs name = Some (snd kv)"
      by (fastforce simp: childrenOf_def List.map_filter_def split: option.splits key.splits)
    then obtain name where "(name, snd kv) \<in> set kvs"
      by (blast dest: map_of_SomeD)
    then have "size (snd kv) < Suc (size_list (size_prod (\<lambda>_. 0) size) kvs)"
      by (induction kvs) auto
    with JObj show ?thesis by simp
  qed (use mem in \<open>auto simp: childrenOf_def\<close>)
  then show "((snd kv, childState state (fst kv), p @ [fst kv]), (json, state, p))
               \<in> measure (\<lambda>(json, state, p). size json)"
    by simp
qed

function visibleCaretPositionsFrom ::
    "json \<Rightarrow> vstate option \<Rightarrow> path \<Rightarrow> caretPosition list" where
  "visibleCaretPositionsFrom json state p =
     \<lparr>caretPath = p, caretType = VALUE\<rparr> #
     (if isExpanded json state
      then \<lparr>caretPath = p, caretType = INSIDE\<rparr> #
           concat (map (\<lambda>kv.
                     (if isObject (Some json)
                      then [\<lparr>caretPath = p @ [fst kv], caretType = KEY\<rparr>] else []) @
                     visibleCaretPositionsFrom (snd kv) (childState state (fst kv))
                       (p @ [fst kv]) @
                     [\<lparr>caretPath = p @ [fst kv], caretType = AFTER\<rparr>])
                   (childrenOf json state))
      else [])"
  by pat_completeness auto
termination
proof (relation "measure (\<lambda>(json, state, p). size json)")
  show "wf (measure (\<lambda>(json, state, p). size json))" by simp
next
  fix json :: json and state :: "vstate option" and p :: path and kv :: "key \<times> json"
  assume mem: "kv \<in> set (childrenOf json state)"
  have "size (snd kv) < size json"
  proof (cases json)
    case (JArr xs)
    with mem obtain i where "i < length xs" and "snd kv = xs ! i"
      by (auto simp: childrenOf_def)
    then have "snd kv \<in> set xs" by simp
    then have "size (snd kv) \<le> size_list size xs" by (simp add: size_list_estimation')
    with JArr show ?thesis by simp
  next
    case (JObj kvs)
    with mem have "\<exists>name. map_of kvs name = Some (snd kv)"
      by (fastforce simp: childrenOf_def List.map_filter_def split: option.splits key.splits)
    then obtain name where "(name, snd kv) \<in> set kvs"
      by (blast dest: map_of_SomeD)
    then have "size (snd kv) < Suc (size_list (size_prod (\<lambda>_. 0) size) kvs)"
      by (induction kvs) auto
    with JObj show ?thesis by simp
  qed (use mem in \<open>auto simp: childrenOf_def\<close>)
  then show "((snd kv, childState state (fst kv), p @ [fst kv]), (json, state, p))
               \<in> measure (\<lambda>(json, state, p). size json)"
    by simp
qed

declare visiblePathsFrom.simps [simp del]
declare visibleCaretPositionsFrom.simps [simp del]

definition getVisiblePaths :: "json \<Rightarrow> vstate \<Rightarrow> path list" where
  "getVisiblePaths json state = visiblePathsFrom json (Some state) []"

text \<open>The neighbours of an element in a sequence, \<open>None\<close> where there is none.\<close>

fun neighbourAfter :: "'a list \<Rightarrow> 'a \<Rightarrow> 'a option" where
  "neighbourAfter (x # y # ys) p = (if x = p then Some y else neighbourAfter (y # ys) p)"
| "neighbourAfter _ p = None"

fun neighbourBefore :: "'a list \<Rightarrow> 'a \<Rightarrow> 'a option" where
  "neighbourBefore (x # y # ys) p = (if y = p then Some x else neighbourBefore (y # ys) p)"
| "neighbourBefore _ p = None"

definition documentStateModel :: documentState where
  "documentStateModel =
     \<lparr>getNextVisiblePath = (\<lambda>json state p. neighbourAfter (getVisiblePaths json state) p),
      getPreviousVisiblePath = (\<lambda>json state p. neighbourBefore (getVisiblePaths json state) p),
      getVisibleCaretPositions = (\<lambda>json state. visibleCaretPositionsFrom json (Some state) [])\<rparr>"

section \<open>Example documents\<close>

text \<open>
  The document \<open>{"arr": [2, 3, 1], "name": "x"}\<close> of the spec, with the key order
  \<open>["arr", "name"]\<close> and everything expanded, under the modelled provider.
\<close>

definition exampleJson :: json where
  "exampleJson = JObj [(''arr'', JArr [JNum 2, JNum 3, JNum 1]), (''name'', JStr ''x'')]"

definition leafState :: vstate where
  "leafState = VState None None []"

definition exampleState :: vstate where
  "exampleState =
     VState (Some True) (Some [KStr ''arr'', KStr ''name''])
       [(KStr ''arr'',
           VState (Some True) None [(KNum 0, leafState), (KNum 1, leafState), (KNum 2, leafState)]),
        (KStr ''name'', leafState)]"

definition exampleDocumentState :: documentState where
  "exampleDocumentState = documentStateModel"

section \<open>Notions used in the statements\<close>

text \<open>
  A single-node selection as \<open>getSelectionUp\<close>, \<open>getSelectionDown\<close> and
  \<open>createSelection\<close> (for \<open>AFTER\<close> and \<open>INSIDE\<close>) build it: anchor and focus on one
  path, no \<open>edit\<close> flag.
\<close>

definition singleNode :: "selection_type \<Rightarrow> path \<Rightarrow> selection" where
  "singleNode t p =
     \<lparr>type = t, anchorPath = p, focusPath = p, edit = None, paths = None, pathsMap = None\<rparr>"

text \<open>The \<open>MULTI\<close> selection that \<open>createSelection\<close> builds for a range of one path.\<close>

definition singleMulti :: "path \<Rightarrow> selection" where
  "singleMulti p =
     \<lparr>type = MULTI, anchorPath = p, focusPath = p, edit = None,
      paths = Some [p], pathsMap = Some (createPathsMap [p])\<rparr>"

text \<open>
  The transient state that \<open>getSelectionDown\<close> passes to the visibility provider when
  it extends a range: the focus node collapsed if it is an object or an array.
\<close>

definition collapsedState :: "json \<Rightarrow> vstate \<Rightarrow> path \<Rightarrow> vstate" where
  "collapsedState json state p =
     (if isObjectOrArray (getIn json p) then setInExpanded (Some state) p False else state)"

text \<open>
  Rule 3 of section 4.6 of the spec, in the spec's words, to be compared with the code:
  the target paths of every operation that is not \<open>test\<close>, not \<open>remove\<close> and not
  a \<open>move\<close> with the same source and destination, in operation order.
\<close>

definition collectedTargetPaths ::
    "(json \<Rightarrow> string \<Rightarrow> path) \<Rightarrow> json \<Rightarrow> operation list \<Rightarrow> path list" where
  "collectedTargetPaths parse json operations =
     map (\<lambda>operation. parse json (the (path operation)))
       (filter (\<lambda>operation.
           op operation \<noteq> ''test'' \<and> op operation \<noteq> ''remove'' \<and>
           \<not> (op operation = ''move'' \<and> from operation = path operation))
         operations)"

text \<open>The document \<open>[2, 3, 1]\<close>, expanded, under the modelled provider.\<close>

definition arrayJson :: json where
  "arrayJson = JArr [JNum 2, JNum 3, JNum 1]"

definition arrayState :: vstate where
  "arrayState =
     VState (Some True) None [(KNum 0, leafState), (KNum 1, leafState), (KNum 2, leafState)]"

definition arrayDocumentState :: documentState where
  "arrayDocumentState = documentStateModel"

section \<open>The modelled provider on the example documents\<close>

lemma example_visible_paths:
  "getVisiblePaths exampleJson exampleState =
     [[], [KStr ''arr''], [KStr ''arr'', KNum 0], [KStr ''arr'', KNum 1],
      [KStr ''arr'', KNum 2], [KStr ''name'']]"
  by code_simp

lemma example_visible_paths_collapsed:
  "getVisiblePaths exampleJson (collapsedState exampleJson exampleState [KStr ''arr'']) =
     [[], [KStr ''arr''], [KStr ''name'']]"
  by code_simp

lemma example_carets:
  "getVisibleCaretPositions exampleDocumentState exampleJson exampleState =
     [\<lparr>caretPath = [], caretType = VALUE\<rparr>,
      \<lparr>caretPath = [], caretType = INSIDE\<rparr>,
      \<lparr>caretPath = [KStr ''arr''], caretType = KEY\<rparr>,
      \<lparr>caretPath = [KStr ''arr''], caretType = VALUE\<rparr>,
      \<lparr>caretPath = [KStr ''arr''], caretType = INSIDE\<rparr>,
      \<lparr>caretPath = [KStr ''arr'', KNum 0], caretType = VALUE\<rparr>,
      \<lparr>caretPath = [KStr ''arr'', KNum 0], caretType = AFTER\<rparr>,
      \<lparr>caretPath = [KStr ''arr'', KNum 1], caretType = VALUE\<rparr>,
      \<lparr>caretPath = [KStr ''arr'', KNum 1], caretType = AFTER\<rparr>,
      \<lparr>caretPath = [KStr ''arr'', KNum 2], caretType = VALUE\<rparr>,
      \<lparr>caretPath = [KStr ''arr'', KNum 2], caretType = AFTER\<rparr>,
      \<lparr>caretPath = [KStr ''arr''], caretType = AFTER\<rparr>,
      \<lparr>caretPath = [KStr ''name''], caretType = KEY\<rparr>,
      \<lparr>caretPath = [KStr ''name''], caretType = VALUE\<rparr>,
      \<lparr>caretPath = [KStr ''name''], caretType = AFTER\<rparr>]"
  by code_simp

lemma array_visible_paths:
  "getVisiblePaths arrayJson arrayState = [[], [KNum 0], [KNum 1], [KNum 2]]"
  by code_simp

section \<open>Facts about the imported helpers\<close>

lemma indexOf_ge: "- 1 \<le> indexOf xs x"
  by (induction xs) (auto simp: Let_def)

lemma indexOf_absent: "indexOf xs x = - 1 \<longleftrightarrow> x \<notin> set xs"
proof (induction xs)
  case Nil
  then show ?case by simp
next
  case (Cons y ys)
  have "- 1 \<le> indexOf ys x" by (rule indexOf_ge)
  with Cons show ?case by (auto simp: Let_def)
qed

lemma indexOf_nth:
  "indexOf xs x \<noteq> - 1 \<Longrightarrow> nat (indexOf xs x) < length xs \<and> xs ! nat (indexOf xs x) = x"
proof (induction xs)
  case Nil
  then show ?case by simp
next
  case (Cons y ys)
  have ge: "- 1 \<le> indexOf ys x" by (rule indexOf_ge)
  show ?case
  proof (cases "y = x")
    case True
    then show ?thesis by simp
  next
    case False
    with Cons.prems have ne: "indexOf ys x \<noteq> - 1" by (auto simp: Let_def split: if_splits)
    with ge have pos: "0 \<le> indexOf ys x" by arith
    from Cons.IH [OF ne] False ne pos show ?thesis
      by (auto simp: Let_def nat_add_distrib)
  qed
qed

lemma findIndex_none: "\<forall>x \<in> set xs. \<not> P x \<Longrightarrow> findIndex P xs = - 1"
  by (induction xs) (auto simp: Let_def)

section \<open>Range expansion\<close>

lemma findSharedPath_commute: "findSharedPath a b = findSharedPath b a"
  by (induction a b rule: findSharedPath.induct) auto

lemma findSharedPath_same: "findSharedPath a a = a"
  by (induction a) auto

lemma findSharedPath_length:
  "length (findSharedPath a f) \<le> length a \<and> length (findSharedPath a f) \<le> length f"
  by (induction a f rule: findSharedPath.induct) auto

lemma findSharedPath_diverge:
  "length (findSharedPath a f) < length a \<Longrightarrow> length (findSharedPath a f) < length f \<Longrightarrow>
   a ! length (findSharedPath a f) \<noteq> f ! length (findSharedPath a f)"
  by (induction a f rule: findSharedPath.induct) auto

text \<open>The two branches of \<open>expandSelection\<close> for paths that part below their shared path.\<close>

lemma expandSelection_under_object:
  assumes "a \<noteq> f" and "sh = findSharedPath a f"
    and "length a \<noteq> length sh" and "length f \<noteq> length sh"
    and "isObject (getIn json sh)"
  shows "expandSelection json state a f =
     (case Option.bind (getInState state sh) STATE_KEYS of
        None \<Rightarrow> Inl (TypeError ''Cannot read properties of undefined'')
      | Some keys \<Rightarrow>
          if indexOf keys (a ! length sh) \<noteq> - 1 \<and> indexOf keys (f ! length sh) \<noteq> - 1
          then Inr (map (\<lambda>i. sh @ [keys ! nat i])
                 [min (indexOf keys (a ! length sh)) (indexOf keys (f ! length sh)) ..
                  max (indexOf keys (a ! length sh)) (indexOf keys (f ! length sh))])
          else Inl (Error ''Failed to create selection''))"
proof -
  have "\<not> isArray (getIn json sh)"
    using assms(5) by (auto simp: isObject_def isArray_def split: option.splits json.splits)
  with assms(1,3,4,5) show ?thesis
    unfolding assms(2)
    by (simp add: expandSelection_def Let_def split: option.splits)
qed

lemma expandSelection_under_other:
  assumes "a \<noteq> f" and "sh = findSharedPath a f"
    and "length a \<noteq> length sh" and "length f \<noteq> length sh"
    and "\<not> isObject (getIn json sh)"
  shows "expandSelection json state a f =
     (if isArray (getIn json sh) then
        (case (a ! length sh, f ! length sh) of
           (KNum x, KNum y) \<Rightarrow> Inr (map (\<lambda>i. sh @ [KNum i]) [min x y ..< Suc (max x y)])
         | _ \<Rightarrow> Inl OutsideTypes)
      else Inl (Error ''Failed to create selection''))"
  using assms(1,3,4,5) unfolding assms(2)
  by (simp add: expandSelection_def Let_def split: key.splits)

lemma expandSelection_commute:
  "expandSelection json state a b = expandSelection json state b a"
proof (cases "a = b")
  case True
  then show ?thesis by simp
next
  case False
  then have ne: "b \<noteq> a" by simp
  have sh: "findSharedPath b a = findSharedPath a b"
    by (rule findSharedPath_commute)
  show ?thesis
    unfolding expandSelection_def Let_def sh
    using False ne
    by (auto simp: min.commute max.commute split: option.splits key.splits)
qed

text \<open>
  C5. Range expansion is symmetric under a swap of anchor and focus: when
  \<open>expandSelection\<close> succeeds on \<open>(a, b)\<close> it succeeds on \<open>(b, a)\<close> and the two
  results hold the same set of paths.
\<close>

theorem expandSelection_symmetric:
  "expandSelection json state a b = Inr ps \<Longrightarrow>
   (\<exists>qs. expandSelection json state b a = Inr qs \<and> set qs = set ps)"
  by (simp add: expandSelection_commute [of json state b a])

theorem expandSelection_symmetric_witness:
  "expandSelection exampleJson exampleState [KStr ''arr'', KNum 0] [KStr ''arr'', KNum 2] =
     Inr [[KStr ''arr'', KNum 0], [KStr ''arr'', KNum 1], [KStr ''arr'', KNum 2]] \<and>
   (\<exists>qs. expandSelection exampleJson exampleState [KStr ''arr'', KNum 2] [KStr ''arr'', KNum 0] =
           Inr qs \<and>
         set qs = set [[KStr ''arr'', KNum 0], [KStr ''arr'', KNum 1], [KStr ''arr'', KNum 2]])"
proof -
  have h: "expandSelection exampleJson exampleState [KStr ''arr'', KNum 0] [KStr ''arr'', KNum 2] =
     Inr [[KStr ''arr'', KNum 0], [KStr ''arr'', KNum 1], [KStr ''arr'', KNum 2]]"
    by code_simp
  from expandSelection_symmetric [OF h] h show ?thesis by blast
qed

text \<open>
  C4. Two paths that part below their shared path \<open>sharedPath\<close> (each is longer than
  it) cannot be expanded, and \<open>expandSelection\<close> throws
  \<open>Error('Failed to create selection')\<close> instead of returning a range, whenever the
  value at \<open>sharedPath\<close> is neither an object nor an array (a scalar, or nothing at
  all), or is an object whose stored key order \<open>keys\<close> lacks the anchor's or the
  focus's key.
\<close>

theorem expandSelection_fails_fast:
  assumes shared: "sharedPath = findSharedPath anchor focus"
    and "length sharedPath < length anchor"
    and "length sharedPath < length focus"
    and "\<not> isObjectOrArray (getIn json sharedPath) \<or>
         (isObject (getIn json sharedPath) \<and>
          Option.bind (getInState state sharedPath) STATE_KEYS = Some keys \<and>
          (anchor ! length sharedPath \<notin> set keys \<or>
           focus ! length sharedPath \<notin> set keys))"
  shows "expandSelection json state anchor focus =
           Inl (Error ''Failed to create selection'')"
proof -
  have ne: "anchor \<noteq> focus"
    using assms(1,2) findSharedPath_same [of anchor] by auto
  have notArr: "\<not> isArray (getIn json sharedPath)"
    using assms(4) by (auto simp: isObjectOrArray_def isObject_def isArray_def
                          split: option.splits json.splits)
  show ?thesis
  proof (cases "isObject (getIn json sharedPath)")
    case True
    with assms(4) have
      ks: "Option.bind (getInState state sharedPath) STATE_KEYS = Some keys" and
      ab: "anchor ! length sharedPath \<notin> set keys \<or> focus ! length sharedPath \<notin> set keys"
      by (auto simp: isObjectOrArray_def)
    from ab have "indexOf keys (anchor ! length sharedPath) = - 1 \<or>
                  indexOf keys (focus ! length sharedPath) = - 1"
      by (simp add: indexOf_absent)
    then show ?thesis
      using expandSelection_under_object [OF ne shared _ _ True, of state] assms(2,3) ks
      by auto
  next
    case False
    then show ?thesis
      using expandSelection_under_other [OF ne shared _ _ False, of state] assms(2,3) notArr
      by auto
  qed
qed

theorem expandSelection_fails_fast_witness:
  "expandSelection exampleJson exampleState [KStr ''name'', KNum 0] [KStr ''name'', KNum 1] =
     Inl (Error ''Failed to create selection'') \<and>
   expandSelection exampleJson exampleState [KStr ''arr''] [KStr ''age''] =
     Inl (Error ''Failed to create selection'')"
proof -
  have s1: "[KStr ''name''] = findSharedPath [KStr ''name'', KNum 0] [KStr ''name'', KNum 1]"
    by code_simp
  have v1: "\<not> isObjectOrArray (getIn exampleJson [KStr ''name''])"
    by code_simp
  have s2: "[] = findSharedPath [KStr ''arr''] [KStr ''age'']"
    by code_simp
  have v2: "isObject (getIn exampleJson [])"
    by code_simp
  have k2: "Option.bind (getInState exampleState []) STATE_KEYS =
              Some [KStr ''arr'', KStr ''name'']"
    by code_simp
  show ?thesis
    using expandSelection_fails_fast
            [of "[KStr ''name'']" "[KStr ''name'', KNum 0]" "[KStr ''name'', KNum 1]"
                exampleJson exampleState "[]", OF s1]
          expandSelection_fails_fast
            [of "[]" "[KStr ''arr'']" "[KStr ''age'']"
                exampleJson exampleState "[KStr ''arr'', KStr ''name'']", OF s2]
          v1 v2 k2
    by simp
qed

text \<open>
  Where the anchor ends up in an expanded range: when the anchor is itself one of the
  paths, it is the first of them, or it is the last and the focus is not.
\<close>

lemma expandSelection_anchor_end:
  assumes ex: "expandSelection json state a f = Inr ps" and mem: "a \<in> set ps"
  shows "ps \<noteq> [] \<and> (a = hd ps \<or> (a = last ps \<and> f \<noteq> last ps))"
proof (cases "a = f")
  case True
  with ex show ?thesis by (auto simp: expandSelection_def)
next
  case ne: False
  define sh where "sh = findSharedPath a f"
  show ?thesis
  proof (cases "length a = length sh \<or> length f = length sh")
    case True
    with ex ne mem show ?thesis by (auto simp: expandSelection_def sh_def Let_def)
  next
    case False
    have la: "length sh < length a" and lf: "length sh < length f"
      using False findSharedPath_length [of a f] unfolding sh_def by auto
    have dv: "a ! length sh \<noteq> f ! length sh"
      using findSharedPath_diverge [of a f] la lf unfolding sh_def by simp
    have key: "\<And>k. a = sh @ [k] \<Longrightarrow> k = a ! length sh"
      by auto
    show ?thesis
    proof (cases "isObject (getIn json sh)")
      case obj: True
      have unf: "expandSelection json state a f =
         (case Option.bind (getInState state sh) STATE_KEYS of
            None \<Rightarrow> Inl (TypeError ''Cannot read properties of undefined'')
          | Some keys \<Rightarrow>
              if indexOf keys (a ! length sh) \<noteq> - 1 \<and> indexOf keys (f ! length sh) \<noteq> - 1
              then Inr (map (\<lambda>i. sh @ [keys ! nat i])
                     [min (indexOf keys (a ! length sh)) (indexOf keys (f ! length sh)) ..
                      max (indexOf keys (a ! length sh)) (indexOf keys (f ! length sh))])
              else Inl (Error ''Failed to create selection''))"
        using ne False obj by (intro expandSelection_under_object) (auto simp: sh_def)
      from ex obtain keys where
        ai: "indexOf keys (a ! length sh) \<noteq> - 1"
        and fi: "indexOf keys (f ! length sh) \<noteq> - 1"
        and ps: "ps = map (\<lambda>i. sh @ [keys ! nat i])
                   [min (indexOf keys (a ! length sh)) (indexOf keys (f ! length sh)) ..
                    max (indexOf keys (a ! length sh)) (indexOf keys (f ! length sh))]"
        unfolding unf by (auto split: option.splits if_splits)
      let ?ai = "indexOf keys (a ! length sh)"
      let ?fi = "indexOf keys (f ! length sh)"
      from mem ps obtain i where "a = sh @ [keys ! nat i]" by auto
      then have a_eq: "a = sh @ [a ! length sh]" using key by simp
      have nth_a: "keys ! nat ?ai = a ! length sh" using indexOf_nth [OF ai] by simp
      show ?thesis
      proof (cases "?ai \<le> ?fi")
        case True
        then have "[min ?ai ?fi .. max ?ai ?fi] = ?ai # [?ai + 1 .. ?fi]"
          by (simp add: upto_rec1 min_def max_def)
        then have "ps \<noteq> [] \<and> hd ps = sh @ [keys ! nat ?ai]" using ps by simp
        with a_eq nth_a show ?thesis by simp
      next
        case False
        then have "[min ?ai ?fi .. max ?ai ?fi] = [?fi .. ?ai - 1] @ [?ai]"
          by (simp add: upto_rec2 min_def max_def)
        then have "ps \<noteq> [] \<and> last ps = sh @ [keys ! nat ?ai]" using ps by simp
        with a_eq nth_a ne show ?thesis by simp
      qed
    next
      case notObj: False
      have unf: "expandSelection json state a f =
         (if isArray (getIn json sh) then
            (case (a ! length sh, f ! length sh) of
               (KNum x, KNum y) \<Rightarrow> Inr (map (\<lambda>i. sh @ [KNum i]) [min x y ..< Suc (max x y)])
             | _ \<Rightarrow> Inl OutsideTypes)
          else Inl (Error ''Failed to create selection''))"
        using ne False notObj by (intro expandSelection_under_other) (auto simp: sh_def)
      from ex obtain ka kf where
        ak: "a ! length sh = KNum ka" and fk: "f ! length sh = KNum kf"
        and ps: "ps = map (\<lambda>i. sh @ [KNum i]) [min ka kf ..< Suc (max ka kf)]"
        unfolding unf by (auto split: if_splits key.splits)
      from mem ps obtain i where "a = sh @ [KNum i]" by auto
      then have a_eq: "a = sh @ [KNum ka]" using ak key by simp
      show ?thesis
      proof (cases "ka \<le> kf")
        case True
        then have "[min ka kf ..< Suc (max ka kf)] = ka # [Suc ka ..< Suc kf]"
          by (simp add: upt_conv_Cons min_def max_def)
        then have "ps \<noteq> [] \<and> hd ps = sh @ [KNum ka]" using ps by simp
        with a_eq show ?thesis by simp
      next
        case False
        then have "[min ka kf ..< Suc (max ka kf)] = [kf ..< ka] @ [ka]"
          by (simp add: min_def max_def)
        then have "ps \<noteq> [] \<and> last ps = sh @ [KNum ka]" using ps by simp
        with a_eq ne show ?thesis by simp
      qed
    qed
  qed
qed

section \<open>The selection constructor on the requests that navigation makes\<close>

lemma createSelection_multi:
  "createSelection D json state (multiSchema a f) =
     (case expandSelection json state a f of
        Inl e \<Rightarrow> Inl e
      | Inr [] \<Rightarrow> Inl OutsideTypes
      | Inr (q # qs) \<Rightarrow>
          let ps = q # qs; focusPathLast = (f = last ps \<or> a = hd ps)
          in Inr \<lparr>type = MULTI,
                  anchorPath = (if focusPathLast then hd ps else last ps),
                  focusPath = (if focusPathLast then last ps else hd ps),
                  edit = None, paths = Some ps, pathsMap = Some (createPathsMap ps)\<rparr>)"
  by (subst createSelection.simps) (simp add: multiSchema_def)

lemma createSelection_single:
  "createSelection D json state (multiSchema a a) = Inr (singleMulti a)"
  by (simp add: createSelection_multi expandSelection_def Let_def singleMulti_def)

lemma createSelection_path_KEY:
  "createSelection D json state (pathSchema KEY p) =
     Inr \<lparr>type = KEY, anchorPath = p, focusPath = p, edit = Some False,
          paths = None, pathsMap = None\<rparr>"
  by (subst createSelection.simps) (simp add: pathSchema_def)

lemma createSelection_multi_anchor:
  assumes "createSelection D json state (multiSchema a f) = Inr s"
  shows "type s = MULTI \<and>
         (\<exists>ps. expandSelection json state a f = Inr ps \<and> paths s = Some ps \<and>
               (anchorPath s = hd ps \<or> anchorPath s = last ps) \<and>
               (a \<in> set ps \<longrightarrow> anchorPath s = a))"
proof -
  from assms obtain ps where ex: "expandSelection json state a f = Inr ps" and ne: "ps \<noteq> []"
    and s: "s = \<lparr>type = MULTI,
                  anchorPath = (if f = last ps \<or> a = hd ps then hd ps else last ps),
                  focusPath = (if f = last ps \<or> a = hd ps then last ps else hd ps),
                  edit = None, paths = Some ps, pathsMap = Some (createPathsMap ps)\<rparr>"
    by (auto simp: createSelection_multi Let_def split: sum.splits list.splits)
  have "a \<in> set ps \<longrightarrow> anchorPath s = a"
    using expandSelection_anchor_end [OF ex] s by auto
  moreover have "anchorPath s = hd ps \<or> anchorPath s = last ps"
    using s by simp
  ultimately show ?thesis using ex s by simp
qed

lemma range_keeps_anchor:
  assumes "map_sum id Some (createSelection D json state (multiSchema a f)) = Inr (Some s)"
  shows "type s = MULTI \<and>
         (\<exists>ps. expandSelection json state a f = Inr ps \<and> paths s = Some ps \<and>
               (anchorPath s = hd ps \<or> anchorPath s = last ps) \<and>
               (a \<in> set ps \<longrightarrow> anchorPath s = a))"
proof -
  from assms have "createSelection D json state (multiSchema a f) = Inr s"
    by (cases "createSelection D json state (multiSchema a f)") auto
  then show ?thesis by (rule createSelection_multi_anchor)
qed

section \<open>Navigation\<close>

subsection \<open>At the boundary of the document\<close>

lemma getSelectionUp_boundary:
  "getPreviousVisiblePath D json state (focusPath selection) = None \<Longrightarrow>
   getSelectionUp D json state selection keepAnchorPath = Inr None"
  by (simp add: getSelectionUp_def)

lemma getSelectionDown_boundary:
  "getNextVisiblePath D json state (focusPath selection) = None \<Longrightarrow>
   getSelectionDown D json state selection keepAnchorPath = Inr None"
  by (subst getSelectionDown.simps) simp

lemma getSelectionRight_without_successor:
  "next (findCaretAndSiblings D json state selection) = None \<Longrightarrow>
   type selection \<noteq> MULTI \<Longrightarrow>
   getSelectionRight D json state selection False = Inr None"
  by (simp add: getSelectionRight_def Let_def split: option.splits)

lemma getSelectionLeft_without_predecessor:
  "previous (findCaretAndSiblings D json state selection) = None \<Longrightarrow>
   type selection \<noteq> MULTI \<Longrightarrow>
   \<not> (type selection = VALUE \<and> isArray (getIn json (initial (focusPath selection)))) \<Longrightarrow>
   getSelectionLeft D json state selection False = Inr None"
  by (auto simp: getSelectionLeft_def Let_def split: option.splits)

text \<open>
  C3. Up and Down at a boundary return \<open>null\<close>, and so does Right at the last caret
  stop (the three lemmas above). Left at the first caret stop does not always: when
  the caret stops begin with the value caret of the root, the selection is that
  \<open>VALUE\<close> selection of the root and the document is an array, \<open>getSelectionLeft\<close>
  takes \<open>initial([])\<close>, which is \<open>[]\<close>, for the parent path, finds the root to be an
  array, and returns a \<open>MULTI\<close> selection of the root instead of \<open>null\<close>.
\<close>

theorem getSelectionLeft_first_caret_array:
  assumes "getVisibleCaretPositions D json state = first # others"
    and "caretPath first = []"
    and "caretType first = VALUE"
    and "type selection = VALUE"
    and "focusPath selection = []"
    and "isArray (Some json)"
  shows "getSelectionLeft D json state selection False = Inr (Some (singleMulti []))"
proof -
  have "previous (findCaretAndSiblings D json state selection) = None"
    using assms(1-5) by (simp add: findCaretAndSiblings_def Let_def)
  then show ?thesis
    using assms(4,5,6)
    by (simp add: getSelectionLeft_def Let_def initial_def createSelection_single
             split: option.splits)
qed

theorem getSelectionLeft_first_caret_array_witness:
  "getSelectionLeft arrayDocumentState arrayJson arrayState selectAll False =
     Inr (Some (singleMulti []))"
proof -
  have carets: "getVisibleCaretPositions arrayDocumentState arrayJson arrayState =
      \<lparr>caretPath = [], caretType = VALUE\<rparr> #
       [\<lparr>caretPath = [], caretType = INSIDE\<rparr>,
        \<lparr>caretPath = [KNum 0], caretType = VALUE\<rparr>,
        \<lparr>caretPath = [KNum 0], caretType = AFTER\<rparr>,
        \<lparr>caretPath = [KNum 1], caretType = VALUE\<rparr>,
        \<lparr>caretPath = [KNum 1], caretType = AFTER\<rparr>,
        \<lparr>caretPath = [KNum 2], caretType = VALUE\<rparr>,
        \<lparr>caretPath = [KNum 2], caretType = AFTER\<rparr>]"
    by code_simp
  have root: "isArray (Some arrayJson)"
    by code_simp
  show ?thesis
    using getSelectionLeft_first_caret_array [OF carets, of selectAll] root
    by (simp add: selectAll_def)
qed

subsection \<open>Key selections\<close>

text \<open>
  C1. \<open>getSelectionLeft\<close> does produce a \<open>KEY\<close> selection for the document root: no
  caret stop has type \<open>MULTI\<close>, so a \<open>MULTI\<close> selection never matches one; with the
  focus on the root the parent path \<open>initial([])\<close> is \<open>[]\<close> again, and when the
  document is not an array the function returns \<open>KEY\<close> at \<open>[]\<close>. The witness reaches
  that \<open>MULTI\<close> selection of the root by \<open>getSelectionUp\<close> from the first property.
\<close>

theorem getSelectionLeft_root_key:
  assumes "\<forall>c \<in> set (getVisibleCaretPositions D json state). caretType c \<noteq> MULTI"
    and "type selection = MULTI"
    and "focusPath selection = []"
    and "\<not> isArray (Some json)"
  shows "getSelectionLeft D json state selection False =
           Inr (Some \<lparr>type = KEY, anchorPath = [], focusPath = [], edit = Some False,
                      paths = None, pathsMap = None\<rparr>)"
proof -
  have "findIndex (\<lambda>c. caretPath c = focusPath selection \<and> caretType c = type selection)
          (getVisibleCaretPositions D json state) = - 1"
    using assms(1,2) by (intro findIndex_none) auto
  then have "caret (findCaretAndSiblings D json state selection) = None"
    by (simp add: findCaretAndSiblings_def Let_def)
  then show ?thesis
    using assms(2,3,4)
    by (simp add: getSelectionLeft_def Let_def initial_def createSelection_path_KEY)
qed

theorem getSelectionLeft_root_key_witness:
  "getSelectionUp exampleDocumentState exampleJson exampleState
     (singleMulti [KStr ''arr'']) False = Inr (Some (singleMulti [])) \<and>
   getSelectionLeft exampleDocumentState exampleJson exampleState (singleMulti []) False =
     Inr (Some \<lparr>type = KEY, anchorPath = [], focusPath = [], edit = Some False,
                paths = None, pathsMap = None\<rparr>)"
proof -
  have up: "getSelectionUp exampleDocumentState exampleJson exampleState
     (singleMulti [KStr ''arr'']) False = Inr (Some (singleMulti []))"
    by code_simp
  have carets: "\<forall>c \<in> set (getVisibleCaretPositions exampleDocumentState exampleJson exampleState).
                  caretType c \<noteq> MULTI"
    by code_simp
  have root: "\<not> isArray (Some exampleJson)"
    by code_simp
  show ?thesis
    using getSelectionLeft_root_key [OF carets, of "singleMulti []"] up root
    by (simp add: singleMulti_def)
qed

text \<open>
  What \<open>getSelectionUp\<close> and \<open>getSelectionDown\<close> guarantee by themselves: a \<open>KEY\<close>
  selection that they return lies under a parent that is not an array. Up also keeps
  it off the root; Down returns it at the path that the visibility provider gave as
  the next visible one.
\<close>

lemma multi_is_not_key:
  "map_sum id Some (createSelection D json state (multiSchema a f)) = Inr (Some r) \<Longrightarrow>
   type r \<noteq> KEY"
  using range_keeps_anchor [of D json state a f r] by auto

lemma getSelectionUp_key:
  assumes "getSelectionUp D json state selection keepAnchorPath = Inr (Some s)"
    and "type s = KEY"
  shows "focusPath s \<noteq> [] \<and> \<not> isArray (getIn json (initial (focusPath s)))"
proof -
  from assms(1) obtain previousPath where
    p: "getPreviousVisiblePath D json state (focusPath selection) = Some previousPath"
    by (cases "getPreviousVisiblePath D json state (focusPath selection)")
       (auto simp: getSelectionUp_def)
  show ?thesis
  proof (cases "\<not> keepAnchorPath \<and> type selection = KEY")
    case True
    with assms p show ?thesis
      by (auto simp: getSelectionUp_def split: if_splits)
  next
    case False
    with assms p show ?thesis
      by (auto simp: getSelectionUp_def split: if_splits dest: multi_is_not_key)
  qed
qed

lemma getSelectionDown_key:
  assumes "getSelectionDown D json state selection keepAnchorPath = Inr (Some s)"
    and "type s = KEY"
  shows "getNextVisiblePath D json state (focusPath selection) = Some (focusPath s) \<and>
         \<not> isArray (getIn json (initial (focusPath s)))"
proof -
  from assms(1) obtain nextPath where
    n: "getNextVisiblePath D json state (focusPath selection) = Some nextPath"
    by (cases "getNextVisiblePath D json state (focusPath selection)")
       (auto simp: getSelectionDown.simps)
  show ?thesis
  proof (cases "\<not> keepAnchorPath \<and> type selection = KEY")
    case True
    with assms n show ?thesis
      by (auto simp: getSelectionDown.simps [of D json state selection] split: if_splits)
  next
    case False
    with assms n show ?thesis
      by (auto simp: getSelectionDown.simps [of D json state selection] Let_def
               split: if_splits option.splits dest: multi_is_not_key)
  qed
qed

subsection \<open>Extending a range up and down\<close>

lemma getSelectionUp_extend_insertion_point:
  assumes "getPreviousVisiblePath D json state (focusPath selection) = Some previousPath"
    and "type selection = AFTER \<or> type selection = INSIDE"
  shows "getSelectionUp D json state selection True =
           Inr (Some (singleMulti (anchorPath selection)))"
  using assms by (auto simp: getSelectionUp_def createSelection_single)

lemma getSelectionUp_extend_range:
  assumes "getPreviousVisiblePath D json state (focusPath selection) = Some previousPath"
    and "type selection \<noteq> AFTER" and "type selection \<noteq> INSIDE"
  shows "getSelectionUp D json state selection True =
           map_sum id Some
             (createSelection D json state (multiSchema (anchorPath selection) previousPath))"
  using assms by (simp add: getSelectionUp_def)

lemma getSelectionDown_extend:
  assumes "getNextVisiblePath D json state (focusPath selection) = Some nextPath"
    and "getNextVisiblePath D json (collapsedState json state (focusPath selection))
           (focusPath selection) = Some nextPathAfter"
  shows "getSelectionDown D json state selection True =
           (if type selection = AFTER then Inr (Some (singleMulti nextPathAfter))
            else if type selection = INSIDE then Inr (Some (singleMulti nextPath))
            else map_sum id Some
                   (createSelection D json state
                      (multiSchema (anchorPath selection) nextPathAfter)))"
  using assms
  by (subst getSelectionDown.simps)
     (simp add: collapsedState_def Let_def createSelection_single)

text \<open>
  C2, as stated, fails in both halves on the example document. Extending down from the
  \<open>AFTER\<close> selection at \<open>["arr", 0]\<close> gives a \<open>MULTI\<close> selection anchored at the
  next path \<open>["arr", 1]\<close>, not at the current focus path. Extending down from the
  \<open>VALUE\<close> selection at \<open>["arr", 2]\<close> reaches \<open>["name"]\<close>; the range is expanded to
  \<open>["arr"]\<close> and \<open>["name"]\<close>, and the anchor of the \<open>MULTI\<close> selection is \<open>["arr"]\<close>,
  not the original anchor path \<open>["arr", 2]\<close>.
\<close>

theorem getSelectionDown_extend_after_moves_anchor:
  "getSelectionDown exampleDocumentState exampleJson exampleState
     (singleNode AFTER [KStr ''arr'', KNum 0]) True =
     Inr (Some (singleMulti [KStr ''arr'', KNum 1])) \<and>
   anchorPath (singleMulti [KStr ''arr'', KNum 1]) \<noteq>
     focusPath (singleNode AFTER [KStr ''arr'', KNum 0]) \<and>
   getSelectionDown exampleDocumentState exampleJson exampleState
     (singleNode VALUE [KStr ''arr'', KNum 2]) True =
     Inr (Some \<lparr>type = MULTI, anchorPath = [KStr ''arr''], focusPath = [KStr ''name''],
                edit = None, paths = Some [[KStr ''arr''], [KStr ''name'']],
                pathsMap = Some [(''/arr'', True), (''/name'', True)]\<rparr>) \<and>
   [KStr ''arr''] \<noteq> anchorPath (singleNode VALUE [KStr ''arr'', KNum 2])"
  by code_simp

text \<open>
  C2, amended. With \<open>keepAnchorPath = true\<close>:

  \<^item> Up, with a previous visible path: an \<open>AFTER\<close> or \<open>INSIDE\<close> selection becomes the
    \<open>MULTI\<close> selection of the one path \<open>anchorPath\<close> (its anchor and focus coincide, so
    this is its focus path); any other selection becomes the range that
    \<open>createSelection\<close> expands from the original \<open>anchorPath\<close> to the previous path.
  \<^item> Down, with a next visible path both in the state as it is and with the focus node
    collapsed: an \<open>AFTER\<close> selection becomes the \<open>MULTI\<close> selection of the one path
    found with the focus node collapsed, an \<open>INSIDE\<close> selection that of the plain next
    path; any other selection becomes the range expanded from the original
    \<open>anchorPath\<close> to the path found with the focus node collapsed.
  \<^item> Such a range, when the expansion succeeds, is a \<open>MULTI\<close> selection whose paths are
    the expanded ones; its \<open>anchorPath\<close> is the first or the last of them, and it is
    the original \<open>anchorPath\<close> whenever that path is one of them.
\<close>

theorem extend_up_down_anchor:
  "(getPreviousVisiblePath D json state (focusPath selection) = Some previousPath \<longrightarrow>
      (type selection = AFTER \<or> type selection = INSIDE \<longrightarrow>
         getSelectionUp D json state selection True =
           Inr (Some (singleMulti (anchorPath selection)))) \<and>
      (type selection \<noteq> AFTER \<and> type selection \<noteq> INSIDE \<longrightarrow>
         getSelectionUp D json state selection True =
           map_sum id Some
             (createSelection D json state (multiSchema (anchorPath selection) previousPath)) \<and>
         (\<forall>s. getSelectionUp D json state selection True = Inr (Some s) \<longrightarrow>
              type s = MULTI \<and>
              (\<exists>ps. expandSelection json state (anchorPath selection) previousPath = Inr ps \<and>
                    paths s = Some ps \<and>
                    (anchorPath s = hd ps \<or> anchorPath s = last ps) \<and>
                    (anchorPath selection \<in> set ps \<longrightarrow> anchorPath s = anchorPath selection))))) \<and>
   (getNextVisiblePath D json state (focusPath selection) = Some nextPath \<and>
    getNextVisiblePath D json (collapsedState json state (focusPath selection))
      (focusPath selection) = Some nextPathAfter \<longrightarrow>
      (type selection = AFTER \<longrightarrow>
         getSelectionDown D json state selection True = Inr (Some (singleMulti nextPathAfter))) \<and>
      (type selection = INSIDE \<longrightarrow>
         getSelectionDown D json state selection True = Inr (Some (singleMulti nextPath))) \<and>
      (type selection \<noteq> AFTER \<and> type selection \<noteq> INSIDE \<longrightarrow>
         getSelectionDown D json state selection True =
           map_sum id Some
             (createSelection D json state (multiSchema (anchorPath selection) nextPathAfter)) \<and>
         (\<forall>s. getSelectionDown D json state selection True = Inr (Some s) \<longrightarrow>
              type s = MULTI \<and>
              (\<exists>ps. expandSelection json state (anchorPath selection) nextPathAfter = Inr ps \<and>
                    paths s = Some ps \<and>
                    (anchorPath s = hd ps \<or> anchorPath s = last ps) \<and>
                    (anchorPath selection \<in> set ps \<longrightarrow> anchorPath s = anchorPath selection)))))"
proof (intro conjI impI allI)
  assume "getPreviousVisiblePath D json state (focusPath selection) = Some previousPath"
    and "type selection = AFTER \<or> type selection = INSIDE"
  then show "getSelectionUp D json state selection True =
               Inr (Some (singleMulti (anchorPath selection)))"
    by (rule getSelectionUp_extend_insertion_point)
next
  assume p: "getPreviousVisiblePath D json state (focusPath selection) = Some previousPath"
    and t: "type selection \<noteq> AFTER \<and> type selection \<noteq> INSIDE"
  then show "getSelectionUp D json state selection True =
           map_sum id Some
             (createSelection D json state (multiSchema (anchorPath selection) previousPath))"
    by (simp add: getSelectionUp_extend_range)
next
  fix s
  assume p: "getPreviousVisiblePath D json state (focusPath selection) = Some previousPath"
    and t: "type selection \<noteq> AFTER \<and> type selection \<noteq> INSIDE"
    and r: "getSelectionUp D json state selection True = Inr (Some s)"
  from p t r have "map_sum id Some
      (createSelection D json state (multiSchema (anchorPath selection) previousPath)) =
      Inr (Some s)"
    by (simp add: getSelectionUp_extend_range)
  from range_keeps_anchor [OF this]
  show "type s = MULTI"
    and "\<exists>ps. expandSelection json state (anchorPath selection) previousPath = Inr ps \<and>
              paths s = Some ps \<and>
              (anchorPath s = hd ps \<or> anchorPath s = last ps) \<and>
              (anchorPath selection \<in> set ps \<longrightarrow> anchorPath s = anchorPath selection)"
    by simp_all
next
  assume n: "getNextVisiblePath D json state (focusPath selection) = Some nextPath \<and>
    getNextVisiblePath D json (collapsedState json state (focusPath selection))
      (focusPath selection) = Some nextPathAfter"
    and t: "type selection = AFTER"
  then show "getSelectionDown D json state selection True = Inr (Some (singleMulti nextPathAfter))"
    by (simp add: getSelectionDown_extend)
next
  assume n: "getNextVisiblePath D json state (focusPath selection) = Some nextPath \<and>
    getNextVisiblePath D json (collapsedState json state (focusPath selection))
      (focusPath selection) = Some nextPathAfter"
    and t: "type selection = INSIDE"
  then show "getSelectionDown D json state selection True = Inr (Some (singleMulti nextPath))"
    by (simp add: getSelectionDown_extend)
next
  assume n: "getNextVisiblePath D json state (focusPath selection) = Some nextPath \<and>
    getNextVisiblePath D json (collapsedState json state (focusPath selection))
      (focusPath selection) = Some nextPathAfter"
    and t: "type selection \<noteq> AFTER \<and> type selection \<noteq> INSIDE"
  then show "getSelectionDown D json state selection True =
           map_sum id Some
             (createSelection D json state (multiSchema (anchorPath selection) nextPathAfter))"
    by (simp add: getSelectionDown_extend)
next
  fix s
  assume n: "getNextVisiblePath D json state (focusPath selection) = Some nextPath \<and>
    getNextVisiblePath D json (collapsedState json state (focusPath selection))
      (focusPath selection) = Some nextPathAfter"
    and t: "type selection \<noteq> AFTER \<and> type selection \<noteq> INSIDE"
    and r: "getSelectionDown D json state selection True = Inr (Some s)"
  from n t r have "map_sum id Some
      (createSelection D json state (multiSchema (anchorPath selection) nextPathAfter)) =
      Inr (Some s)"
    by (simp add: getSelectionDown_extend)
  from range_keeps_anchor [OF this]
  show "type s = MULTI"
    and "\<exists>ps. expandSelection json state (anchorPath selection) nextPathAfter = Inr ps \<and>
              paths s = Some ps \<and>
              (anchorPath s = hd ps \<or> anchorPath s = last ps) \<and>
              (anchorPath selection \<in> set ps \<longrightarrow> anchorPath s = anchorPath selection)"
    by simp_all
qed

theorem extend_up_down_anchor_witness:
  "getSelectionUp exampleDocumentState exampleJson exampleState
     (singleNode AFTER [KStr ''arr'']) True =
     Inr (Some (singleMulti [KStr ''arr''])) \<and>
   getSelectionDown exampleDocumentState exampleJson exampleState
     (singleNode AFTER [KStr ''arr'']) True =
     Inr (Some (singleMulti [KStr ''name''])) \<and>
   getSelectionUp exampleDocumentState exampleJson exampleState
     (singleNode INSIDE [KStr ''arr'']) True =
     Inr (Some (singleMulti [KStr ''arr''])) \<and>
   getSelectionDown exampleDocumentState exampleJson exampleState
     (singleNode INSIDE [KStr ''arr'']) True =
     Inr (Some (singleMulti [KStr ''arr'', KNum 0])) \<and>
   getSelectionUp exampleDocumentState exampleJson exampleState
     (singleMulti [KStr ''arr'', KNum 1]) True =
     Inr (Some \<lparr>type = MULTI, anchorPath = [KStr ''arr'', KNum 1],
                focusPath = [KStr ''arr'', KNum 0], edit = None,
                paths = Some [[KStr ''arr'', KNum 0], [KStr ''arr'', KNum 1]],
                pathsMap = Some [(''/arr/0'', True), (''/arr/1'', True)]\<rparr>) \<and>
   getSelectionDown exampleDocumentState exampleJson exampleState
     (singleMulti [KStr ''arr'']) True =
     Inr (Some \<lparr>type = MULTI, anchorPath = [KStr ''arr''],
                focusPath = [KStr ''name''], edit = None,
                paths = Some [[KStr ''arr''], [KStr ''name'']],
                pathsMap = Some [(''/arr'', True), (''/name'', True)]\<rparr>)"
proof -
  let ?D = exampleDocumentState and ?j = exampleJson and ?s = exampleState
  let ?after = "singleNode AFTER [KStr ''arr'']"
  let ?inside = "singleNode INSIDE [KStr ''arr'']"
  let ?item = "singleMulti [KStr ''arr'', KNum 1]"
  let ?arr = "singleMulti [KStr ''arr'']"
  have after1:
    "getPreviousVisiblePath ?D ?j ?s (focusPath ?after) = Some []"
    by code_simp
  have after2:
    "getNextVisiblePath ?D ?j ?s (focusPath ?after) = Some [KStr ''arr'', KNum 0] \<and>
     getNextVisiblePath ?D ?j (collapsedState ?j ?s (focusPath ?after)) (focusPath ?after) =
       Some [KStr ''name'']"
    by code_simp
  have after3: "type ?after = AFTER" and after4: "anchorPath ?after = [KStr ''arr'']"
    by (simp_all add: singleNode_def)
  have inside1:
    "getPreviousVisiblePath ?D ?j ?s (focusPath ?inside) = Some []"
    by code_simp
  have inside2:
    "getNextVisiblePath ?D ?j ?s (focusPath ?inside) = Some [KStr ''arr'', KNum 0] \<and>
     getNextVisiblePath ?D ?j (collapsedState ?j ?s (focusPath ?inside)) (focusPath ?inside) =
       Some [KStr ''name'']"
    by code_simp
  have inside3: "type ?inside = INSIDE" and inside4: "anchorPath ?inside = [KStr ''arr'']"
    by (simp_all add: singleNode_def)
  have item1:
    "getPreviousVisiblePath ?D ?j ?s (focusPath ?item) = Some [KStr ''arr'', KNum 0]"
    by code_simp
  have item3: "type ?item \<noteq> AFTER \<and> type ?item \<noteq> INSIDE"
    and item4: "anchorPath ?item = [KStr ''arr'', KNum 1]"
    by (simp_all add: singleMulti_def)
  have arr2:
    "getNextVisiblePath ?D ?j ?s (focusPath ?arr) = Some [KStr ''arr'', KNum 0] \<and>
     getNextVisiblePath ?D ?j (collapsedState ?j ?s (focusPath ?arr)) (focusPath ?arr) =
       Some [KStr ''name'']"
    by code_simp
  have arr3: "type ?arr \<noteq> AFTER \<and> type ?arr \<noteq> INSIDE"
    and arr4: "anchorPath ?arr = [KStr ''arr'']"
    by (simp_all add: singleMulti_def)
  have range_up:
    "map_sum id Some (createSelection ?D ?j ?s
        (multiSchema [KStr ''arr'', KNum 1] [KStr ''arr'', KNum 0])) =
       Inr (Some \<lparr>type = MULTI, anchorPath = [KStr ''arr'', KNum 1],
            focusPath = [KStr ''arr'', KNum 0], edit = None,
            paths = Some [[KStr ''arr'', KNum 0], [KStr ''arr'', KNum 1]],
            pathsMap = Some [(''/arr/0'', True), (''/arr/1'', True)]\<rparr>)"
    by code_simp
  have range_down:
    "map_sum id Some (createSelection ?D ?j ?s
        (multiSchema [KStr ''arr''] [KStr ''name''])) =
       Inr (Some \<lparr>type = MULTI, anchorPath = [KStr ''arr''],
            focusPath = [KStr ''name''], edit = None,
            paths = Some [[KStr ''arr''], [KStr ''name'']],
            pathsMap = Some [(''/arr'', True), (''/name'', True)]\<rparr>)"
    by code_simp
  note A = extend_up_down_anchor [of ?D ?j ?s ?after "[]"
            "[KStr ''arr'', KNum 0]" "[KStr ''name'']"]
  note I = extend_up_down_anchor [of ?D ?j ?s ?inside "[]"
            "[KStr ''arr'', KNum 0]" "[KStr ''name'']"]
  note U = extend_up_down_anchor [of ?D ?j ?s ?item "[KStr ''arr'', KNum 0]"
            "[KStr ''arr'', KNum 2]" "[KStr ''arr'', KNum 2]"]
  note M = extend_up_down_anchor [of ?D ?j ?s ?arr "[]"
            "[KStr ''arr'', KNum 0]" "[KStr ''name'']"]
  have a_up: "getSelectionUp ?D ?j ?s ?after True = Inr (Some (singleMulti (anchorPath ?after)))"
    using A after1 after3 by blast
  have a_down: "getSelectionDown ?D ?j ?s ?after True = Inr (Some (singleMulti [KStr ''name'']))"
    using A after2 after3 by blast
  have i_up: "getSelectionUp ?D ?j ?s ?inside True = Inr (Some (singleMulti (anchorPath ?inside)))"
    using I inside1 inside3 by blast
  have i_down: "getSelectionDown ?D ?j ?s ?inside True =
                  Inr (Some (singleMulti [KStr ''arr'', KNum 0]))"
    using I inside2 inside3 by blast
  have m_up: "getSelectionUp ?D ?j ?s ?item True =
                map_sum id Some (createSelection ?D ?j ?s
                  (multiSchema (anchorPath ?item) [KStr ''arr'', KNum 0]))"
    using U item1 item3 by blast
  have m_down: "getSelectionDown ?D ?j ?s ?arr True =
                map_sum id Some (createSelection ?D ?j ?s
                  (multiSchema (anchorPath ?arr) [KStr ''name'']))"
    using M arr2 arr3 by blast
  show ?thesis
    using a_up a_down i_up i_down m_up m_down
    unfolding after4 inside4 item4 arr4 range_up range_down
    by (intro conjI)
qed

subsection \<open>Down, then up\<close>

text \<open>
  C6, as stated, fails for a \<open>VALUE\<close> selection that carries an \<open>edit\<close> property, as
  \<open>createSelection\<close> builds it: the selections that Down and Up return carry none,
  so Down and then Up from \<open>VALUE\<close> at \<open>["arr", 0]\<close> with \<open>edit: false\<close> in the
  example document end at \<open>VALUE\<close> at \<open>["arr", 0]\<close> without \<open>edit\<close>, which is not
  structurally the original selection.
\<close>

theorem down_then_up_drops_edit:
  "createSelection exampleDocumentState exampleJson exampleState
     (pathSchema VALUE [KStr ''arr'', KNum 0]) =
     Inr \<lparr>type = VALUE, anchorPath = [KStr ''arr'', KNum 0],
          focusPath = [KStr ''arr'', KNum 0], edit = Some False,
          paths = None, pathsMap = None\<rparr> \<and>
   getNextVisiblePath exampleDocumentState exampleJson exampleState [KStr ''arr'', KNum 0] =
     Some [KStr ''arr'', KNum 1] \<and>
   getPreviousVisiblePath exampleDocumentState exampleJson exampleState [KStr ''arr'', KNum 1] =
     Some [KStr ''arr'', KNum 0] \<and>
   getSelectionDown exampleDocumentState exampleJson exampleState
     \<lparr>type = VALUE, anchorPath = [KStr ''arr'', KNum 0],
      focusPath = [KStr ''arr'', KNum 0], edit = Some False,
      paths = None, pathsMap = None\<rparr> False =
     Inr (Some (singleNode VALUE [KStr ''arr'', KNum 1])) \<and>
   getSelectionUp exampleDocumentState exampleJson exampleState
     (singleNode VALUE [KStr ''arr'', KNum 1]) False =
     Inr (Some (singleNode VALUE [KStr ''arr'', KNum 0])) \<and>
   singleNode VALUE [KStr ''arr'', KNum 0] \<noteq>
     \<lparr>type = VALUE, anchorPath = [KStr ''arr'', KNum 0],
      focusPath = [KStr ''arr'', KNum 0], edit = Some False,
      paths = None, pathsMap = None\<rparr>"
proof -
  have built: "createSelection exampleDocumentState exampleJson exampleState
     (pathSchema VALUE [KStr ''arr'', KNum 0]) =
     Inr \<lparr>type = VALUE, anchorPath = [KStr ''arr'', KNum 0],
          focusPath = [KStr ''arr'', KNum 0], edit = Some False,
          paths = None, pathsMap = None\<rparr>"
    by code_simp
  have nxt: "getNextVisiblePath exampleDocumentState exampleJson exampleState
               [KStr ''arr'', KNum 0] = Some [KStr ''arr'', KNum 1]"
    by code_simp
  have prv: "getPreviousVisiblePath exampleDocumentState exampleJson exampleState
               [KStr ''arr'', KNum 1] = Some [KStr ''arr'', KNum 0]"
    by code_simp
  have down: "getSelectionDown exampleDocumentState exampleJson exampleState
     \<lparr>type = VALUE, anchorPath = [KStr ''arr'', KNum 0],
      focusPath = [KStr ''arr'', KNum 0], edit = Some False,
      paths = None, pathsMap = None\<rparr> False =
     Inr (Some (singleNode VALUE [KStr ''arr'', KNum 1]))"
    by code_simp
  have up: "getSelectionUp exampleDocumentState exampleJson exampleState
     (singleNode VALUE [KStr ''arr'', KNum 1]) False =
     Inr (Some (singleNode VALUE [KStr ''arr'', KNum 0]))"
    by code_simp
  have differ: "singleNode VALUE [KStr ''arr'', KNum 0] \<noteq>
     \<lparr>type = VALUE, anchorPath = [KStr ''arr'', KNum 0],
      focusPath = [KStr ''arr'', KNum 0], edit = Some False,
      paths = None, pathsMap = None\<rparr>"
    by (simp add: singleNode_def)
  from built nxt prv down up differ show ?thesis by (intro conjI)
qed

text \<open>
  C6, amended. From a \<open>VALUE\<close> selection (anchor and focus on one path) that has a
  next visible path whose previous visible path is the focus path again, Down and then
  Up, both without extending, return the \<open>VALUE\<close> selection with the original anchor
  and focus paths and without an \<open>edit\<close> property. That is structurally the original
  selection exactly when the original carries no \<open>edit\<close> property (and no \<open>paths\<close>
  and \<open>pathsMap\<close>, which a \<open>VALUE\<close> selection never has).
\<close>

theorem down_then_up_returns:
  assumes "type selection = VALUE"
    and "anchorPath selection = focusPath selection"
    and "getNextVisiblePath D json state (focusPath selection) = Some nextPath"
    and "getPreviousVisiblePath D json state nextPath = Some (focusPath selection)"
  shows "\<exists>below back.
           getSelectionDown D json state selection False = Inr (Some below) \<and>
           getSelectionUp D json state below False = Inr (Some back) \<and>
           back = \<lparr>type = VALUE, anchorPath = anchorPath selection,
                    focusPath = focusPath selection, edit = None,
                    paths = None, pathsMap = None\<rparr> \<and>
           (back = selection \<longleftrightarrow>
              edit selection = None \<and> paths selection = None \<and> pathsMap selection = None)"
proof -
  let ?below = "\<lparr>type = VALUE, anchorPath = nextPath, focusPath = nextPath, edit = None,
                  paths = None, pathsMap = None\<rparr>"
  have down: "getSelectionDown D json state selection False = Inr (Some ?below)"
    using assms by (subst getSelectionDown.simps) simp
  have up: "getSelectionUp D json state ?below False =
              Inr (Some \<lparr>type = VALUE, anchorPath = focusPath selection,
                         focusPath = focusPath selection, edit = None,
                         paths = None, pathsMap = None\<rparr>)"
    using assms by (simp add: getSelectionUp_def)
  show ?thesis
    using down up assms(1,2) by (cases selection) auto
qed

theorem down_then_up_returns_witness:
  "getSelectionDown exampleDocumentState exampleJson exampleState
     (singleNode VALUE [KStr ''arr'', KNum 0]) False =
     Inr (Some (singleNode VALUE [KStr ''arr'', KNum 1])) \<and>
   getSelectionUp exampleDocumentState exampleJson exampleState
     (singleNode VALUE [KStr ''arr'', KNum 1]) False =
     Inr (Some (singleNode VALUE [KStr ''arr'', KNum 0]))"
proof -
  let ?sel = "singleNode VALUE [KStr ''arr'', KNum 0]"
  have h:
    "type ?sel = VALUE" "anchorPath ?sel = focusPath ?sel"
    "getNextVisiblePath exampleDocumentState exampleJson exampleState (focusPath ?sel) =
       Some [KStr ''arr'', KNum 1]"
    "getPreviousVisiblePath exampleDocumentState exampleJson exampleState
       [KStr ''arr'', KNum 1] = Some (focusPath ?sel)"
    by code_simp+
  have down: "getSelectionDown exampleDocumentState exampleJson exampleState ?sel False =
     Inr (Some (singleNode VALUE [KStr ''arr'', KNum 1]))"
    by code_simp
  have fields: "edit ?sel = None \<and> paths ?sel = None \<and> pathsMap ?sel = None"
    by (simp add: singleNode_def)
  from down_then_up_returns [OF h] down fields show ?thesis
    by auto
qed

section \<open>Serialization\<close>

text \<open>
  C10. A selection of type \<open>AFTER\<close> or \<open>INSIDE\<close> has no partial JSON:
  \<open>selectionToPartialJson\<close> returns \<open>null\<close> for it, whatever the document and the
  indentation.
\<close>

theorem selectionToPartialJson_insertion_point:
  "type selection = AFTER \<or> type selection = INSIDE \<Longrightarrow>
   selectionToPartialJson json selection indentation = Inr Null"
  by (auto simp: selectionToPartialJson_def)

theorem selectionToPartialJson_insertion_point_witness:
  "selectionToPartialJson exampleJson (singleNode AFTER [KStr ''name'']) 2 = Inr Null \<and>
   selectionToPartialJson exampleJson (singleNode INSIDE [KStr ''arr'']) 2 = Inr Null"
  using selectionToPartialJson_insertion_point [of "singleNode AFTER [KStr ''name'']" exampleJson 2]
    selectionToPartialJson_insertion_point [of "singleNode INSIDE [KStr ''arr'']" exampleJson 2]
  by (simp add: singleNode_def)

text \<open>
  C9. A \<open>MULTI\<close> selection with a non-empty focus path whose parent value is an
  array: with exactly one path the result is what \<open>JSON.stringify\<close> gives for that
  element, with nothing after it; otherwise it is, for each path in the order of
  \<open>paths\<close>, the element's \<open>JSON.stringify\<close> text followed by a comma, the pieces
  joined by newlines. (\<open>returned\<close> and \<open>template\<close> only say what becomes of the
  \<open>undefined\<close> that \<open>JSON.stringify\<close> gives for a path that leads nowhere.)
\<close>

theorem selectionToPartialJson_array_items:
  assumes "type selection = MULTI"
    and "focusPath selection \<noteq> []"
    and "isArray (getIn json (initial (focusPath selection)))"
    and "paths selection = Some ps"
  shows "selectionToPartialJson json selection indentation =
           (if length ps = 1
            then Inr (returned (stringify (getIn json (hd ps)) indentation))
            else Inr (Text (join [CHR 0x0A]
                   (map (\<lambda>p. template (stringify (getIn json p) indentation) @ '','') ps))))"
  using assms by (simp add: selectionToPartialJson_def getParentPath_def Let_def)

theorem selectionToPartialJson_array_items_witness:
  "selectionToPartialJson exampleJson
     \<lparr>type = MULTI, anchorPath = [KStr ''arr'', KNum 0], focusPath = [KStr ''arr'', KNum 1],
      edit = None, paths = Some [[KStr ''arr'', KNum 0], [KStr ''arr'', KNum 1]],
      pathsMap = Some (createPathsMap [[KStr ''arr'', KNum 0], [KStr ''arr'', KNum 1]])\<rparr> 2 =
     Inr (Text ''2,\<newline>3,'') \<and>
   selectionToPartialJson exampleJson (singleMulti [KStr ''arr'', KNum 1]) 2 =
     Inr (Text ''3'')"
proof -
  have parent: "isArray (getIn exampleJson (initial [KStr ''arr'', KNum 1]))"
    by code_simp
  have two: "join [CHR 0x0A]
        (map (\<lambda>p. template (stringify (getIn exampleJson p) 2) @ '','')
           [[KStr ''arr'', KNum 0], [KStr ''arr'', KNum 1]]) = ''2,\<newline>3,''"
    by code_simp
  have one: "returned (stringify (getIn exampleJson [KStr ''arr'', KNum 1]) 2) = Text ''3''"
    by code_simp
  show ?thesis
    using selectionToPartialJson_array_items [of
        "\<lparr>type = MULTI, anchorPath = [KStr ''arr'', KNum 0],
          focusPath = [KStr ''arr'', KNum 1], edit = None,
          paths = Some [[KStr ''arr'', KNum 0], [KStr ''arr'', KNum 1]],
          pathsMap = Some (createPathsMap [[KStr ''arr'', KNum 0], [KStr ''arr'', KNum 1]])\<rparr>"
        exampleJson "[[KStr ''arr'', KNum 0], [KStr ''arr'', KNum 1]]" 2]
      selectionToPartialJson_array_items [of
        "singleMulti [KStr ''arr'', KNum 1]" exampleJson "[[KStr ''arr'', KNum 1]]" 2]
      parent two one
    by (simp add: singleMulti_def)
qed

section \<open>Selection after patch operations\<close>

text \<open>
  C7. A list of exactly one operation whose \<open>op\<close> is \<open>replace\<close> or \<open>move\<close> gives a
  \<open>VALUE\<close> selection whose anchor and focus are the parsed target path of the
  operation, with \<open>edit\<close> false. The parser \<open>parse\<close> is any function; the witness
  takes the pointer \<open>/arr/1\<close> in the example document through the parser modelled
  above and arrives at \<open>["arr", 1]\<close>.
\<close>

theorem createSelectionFromOperations_single:
  assumes "operations = [operation]"
    and "op operation = ''replace'' \<or> op operation = ''move''"
    and "path operation = Some pointer"
  shows "createSelectionFromOperations parse json operations =
           Inr (Some \<lparr>type = VALUE, anchorPath = parse json pointer,
                      focusPath = parse json pointer, edit = Some False,
                      paths = None, pathsMap = None\<rparr>)"
  using assms by (auto simp: createSelectionFromOperations_def Let_def)

theorem createSelectionFromOperations_single_witness:
  "createSelectionFromOperations parseJSONPointerWithArrayIndices exampleJson
     [\<lparr>op = ''replace'', path = Some ''/arr/1'', from = None\<rparr>] =
   Inr (Some \<lparr>type = VALUE, anchorPath = [KStr ''arr'', KNum 1],
              focusPath = [KStr ''arr'', KNum 1], edit = Some False,
              paths = None, pathsMap = None\<rparr>)"
proof -
  have p: "parseJSONPointerWithArrayIndices exampleJson ''/arr/1'' = [KStr ''arr'', KNum 1]"
    by code_simp
  show ?thesis
    using createSelectionFromOperations_single [of
        "[\<lparr>op = ''replace'', path = Some ''/arr/1'', from = None\<rparr>]"
        "\<lparr>op = ''replace'', path = Some ''/arr/1'', from = None\<rparr>" "''/arr/1''"
        parseJSONPointerWithArrayIndices exampleJson]
    by (simp add: p)
qed

text \<open>
  C8. For a list of operations (each with a string \<open>path\<close>) that is neither a single
  \<open>replace\<close> or \<open>move\<close> nor a rename (all \<open>move\<close>, the first with different source
  and destination, the others with equal ones), the result is decided by the collected
  target paths of rule 3: \<open>null\<close>, not an error, when there are none; otherwise the
  \<open>MULTI\<close> selection whose \<open>paths\<close> are exactly the collected paths in operation
  order, anchored at the first and focused at the last. No range is expanded.
\<close>

theorem createSelectionFromOperations_collected:
  assumes notSingle: "\<not> (length operations = 1 \<and>
              (op (hd operations) = ''replace'' \<or> op (hd operations) = ''move''))"
    and notRename: "\<not> (operations \<noteq> [] \<and>
              list_all (\<lambda>operation. op operation = ''move'') operations \<and>
              from (hd operations) \<noteq> path (hd operations) \<and>
              list_all (\<lambda>operation. from operation = path operation) (tl operations))"
    and strings: "\<forall>operation \<in> set operations. path operation \<noteq> None"
  shows "createSelectionFromOperations parse json operations =
           (let collected = collectedTargetPaths parse json operations in
            if collected = [] then Inr None
            else Inr (Some \<lparr>type = MULTI, anchorPath = hd collected,
                             focusPath = last collected, edit = None,
                             paths = Some collected,
                             pathsMap = Some (createPathsMap collected)\<rparr>))"
proof -
  have same: "filter (\<lambda>operation.
                  op operation \<noteq> ''test'' \<and> op operation \<noteq> ''remove'' \<and>
                  (op operation \<noteq> ''move'' \<or> from operation \<noteq> path operation) \<and>
                  path operation \<noteq> None) operations =
              filter (\<lambda>operation.
                  op operation \<noteq> ''test'' \<and> op operation \<noteq> ''remove'' \<and>
                  \<not> (op operation = ''move'' \<and> from operation = path operation)) operations"
    using strings by (intro filter_cong) auto
  show ?thesis
    using notSingle notRename
    unfolding createSelectionFromOperations_def collectedTargetPaths_def Let_def same
    by auto
qed

theorem createSelectionFromOperations_collected_witness:
  "createSelectionFromOperations parseJSONPointerWithArrayIndices exampleJson
     [\<lparr>op = ''add'', path = Some ''/arr/0'', from = None\<rparr>,
      \<lparr>op = ''remove'', path = Some ''/arr/3'', from = None\<rparr>,
      \<lparr>op = ''move'', path = Some ''/arr/1'', from = Some ''/arr/1''\<rparr>,
      \<lparr>op = ''add'', path = Some ''/name'', from = None\<rparr>] =
     Inr (Some \<lparr>type = MULTI, anchorPath = [KStr ''arr'', KNum 0],
                focusPath = [KStr ''name''], edit = None,
                paths = Some [[KStr ''arr'', KNum 0], [KStr ''name'']],
                pathsMap = Some [(''/arr/0'', True), (''/name'', True)]\<rparr>) \<and>
   createSelectionFromOperations parseJSONPointerWithArrayIndices exampleJson
     [\<lparr>op = ''test'', path = Some ''/name'', from = None\<rparr>,
      \<lparr>op = ''remove'', path = Some ''/name'', from = None\<rparr>] = Inr None \<and>
   createSelectionFromOperations parseJSONPointerWithArrayIndices exampleJson [] = Inr None"
proof -
  let ?ops1 = "[\<lparr>op = ''add'', path = Some ''/arr/0'', from = None\<rparr>,
      \<lparr>op = ''remove'', path = Some ''/arr/3'', from = None\<rparr>,
      \<lparr>op = ''move'', path = Some ''/arr/1'', from = Some ''/arr/1''\<rparr>,
      \<lparr>op = ''add'', path = Some ''/name'', from = None\<rparr>]"
  let ?ops2 = "[\<lparr>op = ''test'', path = Some ''/name'', from = None\<rparr>,
      \<lparr>op = ''remove'', path = Some ''/name'', from = None\<rparr>]"
  have c1: "collectedTargetPaths parseJSONPointerWithArrayIndices exampleJson ?ops1 =
              [[KStr ''arr'', KNum 0], [KStr ''name'']]"
    by code_simp
  have m1: "createPathsMap [[KStr ''arr'', KNum 0], [KStr ''name'']] =
              [(''/arr/0'', True), (''/name'', True)]"
    by code_simp
  have c2: "collectedTargetPaths parseJSONPointerWithArrayIndices exampleJson ?ops2 = []"
    by code_simp
  have c3: "collectedTargetPaths parseJSONPointerWithArrayIndices exampleJson [] = []"
    by code_simp
  show ?thesis
    using createSelectionFromOperations_collected
            [of ?ops1 parseJSONPointerWithArrayIndices exampleJson]
          createSelectionFromOperations_collected
            [of ?ops2 parseJSONPointerWithArrayIndices exampleJson]
          createSelectionFromOperations_collected
            [of "[]" parseJSONPointerWithArrayIndices exampleJson]
    by (simp add: c1 c2 c3 m1)
qed

end
